theory Spec2Isabelle
  imports Main "HOL-Library.Sublist"
begin

section \<open>Python values\<close>

text \<open>
  A Python \<open>str\<close> is modelled as the list of its characters (\<open>string\<close>); \<open>len\<close> is the
  number of characters. HOL's \<open>char\<close> covers the code points below 256, so the model
  speaks about texts within that range.

  \<open>pyval\<close> holds what \<open>json.loads\<close> can produce and what the client hands to
  \<open>json.dumps\<close>: \<open>None\<close>, booleans, integers, floats (kept as mantissa and exponent,
  never inspected by the client), strings, lists and dicts. A dict is the list of its
  items in insertion order, with distinct keys.
\<close>

datatype pyval =
    PNone
  | PBool bool
  | PInt int
  | PFloat int int
  | PStr string
  | PList "pyval list"
  | PDict "(string \<times> pyval) list"

text \<open>
  The argument a caller passes as \<open>text\<close>. The signature asks for a \<open>str\<close>, Python
  does not enforce it: the other constructors are the non-string objects a caller may pass.
\<close>

datatype pyarg =
    ArgStr string
  | ArgNone
  | ArgBool bool
  | ArgInt int
  | ArgList "pyarg list"

text \<open>
  Every exception the client can raise or let through. \<open>ValueError\<close> is raised by
  \<open>str()\<close> on an integer with too many digits, \<open>JSONDecodeError\<close> by \<open>json.loads\<close>,
  \<open>ConnectTimeout\<close> by the transport; \<open>GoogleTranslateError\<close> carries its \<open>msg\<close>
  attribute.
\<close>

datatype pyerr =
    TypeError
  | IndexError
  | KeyError
  | AttributeError
  | ValueError
  | JSONDecodeError
  | ConnectTimeout
  | GoogleTranslateError "string option"

text \<open>Sequencing of steps that may raise: the first exception ends the computation.\<close>

definition and_then :: "pyerr + 'a \<Rightarrow> ('a \<Rightarrow> pyerr + 'b) \<Rightarrow> pyerr + 'b" where
  "and_then r f = (case r of Inl e \<Rightarrow> Inl e | Inr v \<Rightarrow> f v)"

subsection \<open>Built-in operations\<close>

text \<open>\<open>len(x)\<close>: defined on strings, lists and dicts, \<open>TypeError\<close> on everything else.\<close>

fun py_len :: "pyval \<Rightarrow> pyerr + nat" where
  "py_len (PStr s) = Inr (length s)"
| "py_len (PList xs) = Inr (length xs)"
| "py_len (PDict kvs) = Inr (length kvs)"
| "py_len _ = Inl TypeError"

text \<open>\<open>xs[i]\<close> on a Python list, for a literal index \<open>i \<ge> 0\<close>.\<close>

definition list_index :: "pyval list \<Rightarrow> nat \<Rightarrow> pyerr + pyval" where
  "list_index xs i = (if i < length xs then Inr (xs ! i) else Inl IndexError)"

text \<open>
  \<open>x[i]\<close> on any decoded value, for a literal index \<open>i \<ge> 0\<close>: a list gives its element,
  a string the one-character string at that place, both \<open>IndexError\<close> out of range; a
  decoded dict has string keys only, so an integer key is a \<open>KeyError\<close>; \<open>None\<close>,
  booleans and numbers are not subscriptable (\<open>TypeError\<close>).
\<close>

fun py_index :: "pyval \<Rightarrow> nat \<Rightarrow> pyerr + pyval" where
  "py_index (PList xs) i = list_index xs i"
| "py_index (PStr s) i = (if i < length s then Inr (PStr [s ! i]) else Inl IndexError)"
| "py_index (PDict kvs) i = Inl KeyError"
| "py_index _ i = Inl TypeError"

text \<open>
  Iteration (\<open>for v in x\<close>, \<open>list(x)\<close>): a list yields its elements, a string its
  characters, a dict its keys; anything else is not iterable.
\<close>

fun py_iter :: "pyval \<Rightarrow> pyerr + pyval list" where
  "py_iter (PList xs) = Inr xs"
| "py_iter (PStr s) = Inr (map (\<lambda>c. PStr [c]) s)"
| "py_iter (PDict kvs) = Inr (map (\<lambda>kv. PStr (fst kv)) kvs)"
| "py_iter _ = Inl TypeError"

text \<open>
  \<open>str.isspace\<close> on the code points below 256: U+0009 to U+000D, U+001C to U+0020,
  U+0085 and U+00A0.
\<close>

definition isspace :: "char \<Rightarrow> bool" where
  "isspace c =
     (let n = (of_char c :: nat)
      in (9 \<le> n \<and> n \<le> 13) \<or> (28 \<le> n \<and> n \<le> 32) \<or> n = 133 \<or> n = 160)"

text \<open>\<open>s.strip()\<close>: leading and trailing whitespace removed.\<close>

definition strip :: "string \<Rightarrow> string" where
  "strip s = rev (dropWhile isspace (rev (dropWhile isspace s)))"

text \<open>\<open>x.strip()\<close> on a decoded value: only strings have the method.\<close>

fun py_strip :: "pyval \<Rightarrow> pyerr + string" where
  "py_strip (PStr s) = Inr (strip s)"
| "py_strip _ = Inl AttributeError"

text \<open>
  \<open>s.lower()\<close> on the code points below 256: A to Z and the upper-case letters
  U+00C0 to U+00DE (not the multiplication sign U+00D7) move up by 32.
\<close>

definition lower_char :: "char \<Rightarrow> char" where
  "lower_char c =
     (let n = (of_char c :: nat)
      in if (65 \<le> n \<and> n \<le> 90) \<or> (192 \<le> n \<and> n \<le> 222 \<and> n \<noteq> 215)
         then char_of (n + 32) else c)"

definition lower :: "string \<Rightarrow> string" where
  "lower s = map lower_char s"

fun py_lower :: "pyval \<Rightarrow> pyerr + string" where
  "py_lower (PStr s) = Inr (lower s)"
| "py_lower _ = Inl AttributeError"

text \<open>\<open>m in s\<close> on strings: \<open>m\<close> occurs in \<open>s\<close> as a contiguous run.\<close>

fun py_in :: "string \<Rightarrow> string \<Rightarrow> bool" where
  "py_in m [] = (m = [])"
| "py_in m (c # cs) = (prefix m (c # cs) \<or> py_in m cs)"

subsection \<open>Decimal form of an integer\<close>

definition digit_char :: "nat \<Rightarrow> char" where
  "digit_char d = char_of (48 + d)"

function show_nat :: "nat \<Rightarrow> string" where
  "show_nat n = (if n < 10 then [digit_char n] else show_nat (n div 10) @ [digit_char (n mod 10)])"
  by pat_completeness auto
termination
  by (relation "measure id") auto

declare show_nat.simps [simp del]

definition show_int :: "int \<Rightarrow> string" where
  "show_int i = (if i < 0 then CHR ''-'' # show_nat (nat (- i)) else show_nat (nat i))"

text \<open>
  \<open>str(i)\<close> and \<open>repr(i)\<close> of an integer: the interpreter (Python 3.11, and 3.10 from
  3.10.7 on) refuses the conversion with \<open>ValueError\<close> when the integer has more decimal
  digits than \<open>sys.get_int_max_str_digits()\<close>, which is 4300 unless the program
  changes it; the client does not. The sign is not counted.
\<close>

definition int_max_str_digits :: nat where
  "int_max_str_digits = 4300"

definition int_str :: "int \<Rightarrow> pyerr + string" where
  "int_str i =
     (if int_max_str_digits < length (show_nat (nat \<bar>i\<bar>)) then Inl ValueError
      else Inr (show_int i))"

subsection \<open>\<open>str()\<close> and \<open>repr()\<close> of an argument\<close>

text \<open>
  \<open>repr\<close> of a string: double quotes when the string holds a single quote and no double
  quote, single quotes otherwise; the quote in use and the backslash are escaped with a
  backslash, tab, newline and carriage return are written \<open>\t\<close>, \<open>\n\<close>, \<open>\r\<close>, and
  every other non-printable character as \<open>\xhh\<close>. Below 256 the printable characters
  are U+0020 to U+007E and U+00A1 to U+00FF without the soft hyphen U+00AD.
\<close>

definition hex_digit :: "nat \<Rightarrow> char" where
  "hex_digit d = (if d < 10 then char_of (48 + d) else char_of (87 + d))"

definition isprintable :: "char \<Rightarrow> bool" where
  "isprintable c =
     (let n = (of_char c :: nat)
      in (32 \<le> n \<and> n \<le> 126) \<or> (161 \<le> n \<and> n \<noteq> 173))"

definition repr_char :: "char \<Rightarrow> char \<Rightarrow> string" where
  "repr_char q c =
     (if c = q \<or> c = CHR 0x5C then [CHR 0x5C, c]
      else if c = CHR 0x09 then [CHR 0x5C, CHR ''t'']
      else if c = CHR 0x0A then [CHR 0x5C, CHR ''n'']
      else if c = CHR 0x0D then [CHR 0x5C, CHR ''r'']
      else if isprintable c then [c]
      else [CHR 0x5C, CHR ''x'',
            hex_digit ((of_char c :: nat) div 16), hex_digit ((of_char c :: nat) mod 16)])"

definition repr_str :: "string \<Rightarrow> string" where
  "repr_str s =
     (let q = (if CHR 0x27 \<in> set s \<and> CHR 0x22 \<notin> set s then CHR 0x22 else CHR 0x27)
      in q # concat (map (repr_char q) s) @ [q])"

text \<open>\<open>sep.join(xs)\<close>.\<close>

fun join_with :: "string \<Rightarrow> string list \<Rightarrow> string" where
  "join_with sep [] = []"
| "join_with sep [x] = x"
| "join_with sep (x # y # ys) = x @ sep @ join_with sep (y # ys)"

text \<open>The results of a run of steps, up to the first one that raises.\<close>

fun all_or_first_error :: "(pyerr + 'a) list \<Rightarrow> pyerr + 'a list" where
  "all_or_first_error [] = Inr []"
| "all_or_first_error (Inl e # rs) = Inl e"
| "all_or_first_error (Inr v # rs) =
     (case all_or_first_error rs of Inl e \<Rightarrow> Inl e | Inr vs \<Rightarrow> Inr (v # vs))"

text \<open>
  \<open>repr(x)\<close>. The elements of a list are written in order, so the first integer in it
  that is too long ends the whole conversion.
\<close>

fun py_repr :: "pyarg \<Rightarrow> pyerr + string" where
  "py_repr (ArgStr s) = Inr (repr_str s)"
| "py_repr ArgNone = Inr ''None''"
| "py_repr (ArgBool b) = Inr (if b then ''True'' else ''False'')"
| "py_repr (ArgInt i) = int_str i"
| "py_repr (ArgList xs) =
     (case all_or_first_error (map py_repr xs) of
        Inl e \<Rightarrow> Inl e
      | Inr rs \<Rightarrow> Inr (''['' @ join_with '', '' rs @ '']''))"

text \<open>\<open>str(x)\<close>: a string is itself, every other argument its \<open>repr\<close>.\<close>

fun py_str :: "pyarg \<Rightarrow> pyerr + string" where
  "py_str (ArgStr s) = Inr s"
| "py_str a = py_repr a"

text \<open>\<open>len(x)\<close> on an argument: strings and lists have a length, the others do not.\<close>

fun arg_len :: "pyarg \<Rightarrow> pyerr + nat" where
  "arg_len (ArgStr s) = Inr (length s)"
| "arg_len (ArgList xs) = Inr (length xs)"
| "arg_len _ = Inl TypeError"

text \<open>\<open>x.strip()\<close> on an argument: only strings have the method.\<close>

fun arg_strip :: "pyarg \<Rightarrow> pyerr + string" where
  "arg_strip (ArgStr s) = Inr (strip s)"
| "arg_strip _ = Inl AttributeError"

section \<open>The client and what it depends on\<close>

text \<open>
  What a call reads from outside the two source files: the constants of
  \<open>constants.py\<close> (\<open>GOOGLE_TTS_RPC\<close>, the candidate RPC ids, and \<open>LANGUAGES\<close>, the
  table from language code to display name), the index \<open>random.choice\<close> draws, the
  library functions \<open>json.dumps\<close> (with the compact separators), \<open>urllib.parse.quote\<close>
  and \<open>json.loads\<close> (\<open>None\<close> when it raises \<open>JSONDecodeError\<close>), and the transport
  \<open>session.post\<close>, a function from the posted body to what comes back.
\<close>

record response =
  status_code :: int
  reason :: string
  lines :: "string list"

text \<open>
  \<open>session.post\<close> either raises \<open>ConnectTimeout\<close>, raises another
  \<open>RequestException\<close>, or returns a response. The body is held as the lines
  \<open>iter_lines\<close> yields, each already decoded from UTF-8; a body that is not valid
  UTF-8, or a transport that fails while the body is read, is outside the model.
\<close>

datatype post_result = TimedOut | Failed | Responded response

record env =
  GOOGLE_TTS_RPC :: "string list"
  LANGUAGES :: "string \<rightharpoonup> string"
  randbelow :: nat
  dumps :: "pyval \<Rightarrow> string"
  quote :: "string \<Rightarrow> string"
  loads :: "string \<rightharpoonup> pyval"
  post :: "string \<Rightarrow> post_result"

text \<open>Calls to \<open>logger.warning\<close>, one constructor for each call site.\<close>

datatype warning =
    LangNotSupported string
  | TranslateTooLong
  | NothingToTranslate
  | DetectTooLong
  | NothingToDetect

text \<open>What a call did: its return value or exception, the bodies it posted, its warnings.\<close>

record outcome =
  result :: "pyerr + pyval"
  posted :: "string list"
  logged :: "warning list"

text \<open>\<open>random.choice(seq)\<close>: \<open>IndexError\<close> on an empty sequence.\<close>

definition random_choice :: "env \<Rightarrow> string list \<Rightarrow> pyerr + string" where
  "random_choice env xs =
     (if xs = [] then Inl IndexError else Inr (xs ! (randbelow env mod length xs)))"

text \<open>\<open>json.loads(x)\<close>: \<open>TypeError\<close> unless \<open>x\<close> is a string.\<close>

fun json_loads :: "env \<Rightarrow> pyval \<Rightarrow> pyerr + pyval" where
  "json_loads env (PStr s) = (case loads env s of None \<Rightarrow> Inl JSONDecodeError | Some v \<Rightarrow> Inr v)"
| "json_loads env _ = Inl TypeError"

subsection \<open>\<open>exceptions.py\<close>\<close>

text \<open>
  The object passed as \<open>tts\<close>, as \<open>infer_msg\<close> sees it: the attributes \<open>lang_check\<close>
  and \<open>lang\<close>, each \<open>None\<close> when the object does not have it.
\<close>

record client =
  lang_check :: "bool option"
  lang :: "string option"

text \<open>
  \<open>GoogleTranslate.__init__\<close> sets \<open>proxies\<close>, \<open>url_suffix\<close>, \<open>base_url\<close>, \<open>url\<close>,
  \<open>timeout\<close> and \<open>session\<close>: an instance has neither \<open>lang_check\<close> nor \<open>lang\<close>.
\<close>

definition GoogleTranslate_self :: client where
  "GoogleTranslate_self = \<lparr>lang_check = None, lang = None\<rparr>"

definition premise :: "response \<Rightarrow> string" where
  "premise rsp = show_int (status_code rsp) @ '' ('' @ reason rsp @ '') from TTS API''"

definition infer_msg :: "client \<Rightarrow> response option \<Rightarrow> pyerr + string" where
  "infer_msg tts rsp0 =
     (case rsp0 of
        None \<Rightarrow> Inr (''Failed to connect'' @ ''. Probable cause: timeout'')
      | Some rsp \<Rightarrow>
          (let status = status_code rsp in
           and_then
             (if status = 403 then Inr ''Bad token or upstream API changes''
              else
                and_then
                  (if status = 200
                   then (case lang_check tts of
                           None \<Rightarrow> Inl AttributeError
                         | Some chk \<Rightarrow> Inr (\<not> chk))
                   else Inr False)
                  (\<lambda>unsupported.
                     if unsupported
                     then (case lang tts of
                             None \<Rightarrow> Inl AttributeError
                           | Some l \<Rightarrow>
                               Inr (''No audio stream in response. Unsupported language '' @
                                    [CHR 0x27] @ l @ [CHR 0x27]))
                     else if status \<ge> 500 then Inr ''Upstream API error. Try again later.''
                     else Inr ''Unknown''))
             (\<lambda>cause. Inr (premise rsp @ ''. Probable cause: '' @ cause))))"

text \<open>
  \<open>GoogleTranslateError(msg, tts=..., response=...)\<close>: the exception a
  \<open>raise GoogleTranslateError(...)\<close> ends with, which is the exception \<open>infer_msg\<close>
  raised when the construction itself fails.
\<close>

definition GoogleTranslateError_init ::
    "string option \<Rightarrow> client option \<Rightarrow> response option \<Rightarrow> pyerr" where
  "GoogleTranslateError_init msg tts rsp =
     (if msg \<noteq> None \<and> msg \<noteq> Some [] then GoogleTranslateError msg
      else case tts of
             Some t \<Rightarrow> (case infer_msg t rsp of
                          Inl e \<Rightarrow> e
                        | Inr m \<Rightarrow> GoogleTranslateError (Some m))
           | None \<Rightarrow> GoogleTranslateError None)"

text \<open>\<open>r.raise_for_status()\<close> raises \<open>HTTPError\<close> for the statuses 400 to 599.\<close>

definition raises_for_status :: "response \<Rightarrow> bool" where
  "raises_for_status r = (400 \<le> status_code r \<and> status_code r < 600)"

subsection \<open>\<open>translate.py\<close>: building the request\<close>

fun process_lang :: "env \<Rightarrow> string \<Rightarrow> string \<times> warning list" where
  "process_lang env l =
     (if l = ''auto'' then (l, [])
      else if l \<in> dom (LANGUAGES env) then (l, [])
      else (''auto'', [LangNotSupported l]))"

definition f_req_data :: "env \<Rightarrow> pyarg \<Rightarrow> string \<Rightarrow> string \<Rightarrow> pyerr + string" where
  "f_req_data env text src_lang tgt_lang =
     and_then (arg_strip text) (\<lambda>stripped.
       let parameter = PList [PList [PStr stripped, PStr src_lang, PStr tgt_lang, PBool True],
                              PList [PInt 1]];
           escaped_parameter = dumps env parameter
       in and_then (random_choice env (GOOGLE_TTS_RPC env)) (\<lambda>rpc_id.
            let rpc = PList [PList [PList [PStr rpc_id, PStr escaped_parameter, PNone,
                                           PStr ''generic'']]];
                espaced_rpc = dumps env rpc
            in Inr (''f.req='' @ quote env espaced_rpc @ ''&'')))"

subsection \<open>\<open>translate.py\<close>: reading a translation\<close>

text \<open>\<open>GOOGLE_TTS_RPC[0]\<close>, the marker looked for in every line.\<close>

definition first_rpc :: "env \<Rightarrow> pyerr + string" where
  "first_rpc env = (case GOOGLE_TTS_RPC env of [] \<Rightarrow> Inl IndexError | m # _ \<Rightarrow> Inr m)"

text \<open>
  Lines 119 to 122 of \<open>translate\<close>: the line is decoded, the string at \<open>[0][2]\<close> of
  the outer envelope is decoded again, and the result is made a list (the source's
  \<open>response_\<close>, written \<open>response'\<close> here).
\<close>

definition decode_envelope :: "env \<Rightarrow> string \<Rightarrow> pyerr + pyval list" where
  "decode_envelope env decoded_line =
     and_then (json_loads env (PStr decoded_line)) (\<lambda>outer.
     and_then (py_iter outer) (\<lambda>response.
     and_then (list_index response 0) (\<lambda>r0.
     and_then (py_index r0 2) (\<lambda>r02.
     and_then (json_loads env r02) (\<lambda>payload.
     py_iter payload)))))"

text \<open>
  The loop \<open>for sentence in sentences\<close> of the single-sentence branch, with
  \<open>translate_text\<close> as accumulator.
\<close>

fun join_sentences :: "string \<Rightarrow> pyval list \<Rightarrow> pyerr + string" where
  "join_sentences translate_text [] = Inr translate_text"
| "join_sentences translate_text (sentence # rest) =
     (case and_then (py_index sentence 0) py_strip of
        Inl e \<Rightarrow> Inl e
      | Inr piece \<Rightarrow> join_sentences (translate_text @ piece @ '' '') rest)"

text \<open>The loop \<open>for i in response: sentences.append(i[0])\<close> of the two-element branch.\<close>

fun first_items :: "pyval list \<Rightarrow> pyerr + pyval list" where
  "first_items [] = Inr []"
| "first_items (i # rest) =
     (case py_index i 0 of
        Inl e \<Rightarrow> Inl e
      | Inr x \<Rightarrow> (case first_items rest of Inl e \<Rightarrow> Inl e | Inr xs \<Rightarrow> Inr (x # xs)))"

text \<open>\<open>pronounce_src = response_[0][0]\<close> and \<open>pronounce_tgt = response_[1][0][0][1]\<close>.\<close>

definition pronunciations :: "pyval list \<Rightarrow> pyerr + pyval \<times> pyval" where
  "pronunciations response' =
     and_then (and_then (list_index response' 0) (\<lambda>b. py_index b 0)) (\<lambda>pronounce_src.
     and_then (and_then (and_then (and_then (list_index response' 1)
                 (\<lambda>b. py_index b 0)) (\<lambda>b. py_index b 0)) (\<lambda>b. py_index b 1))
       (\<lambda>pronounce_tgt. Inr (pronounce_src, pronounce_tgt)))"

text \<open>
  Lines 123 to 150 of \<open>translate\<close>: the dispatch on the shape of the translation array
  \<open>response_[1][0]\<close>. \<open>Some v\<close> is \<open>return v\<close>; \<open>None\<close> is the end of the \<open>try\<close>
  body without a \<open>return\<close>, after which the loop over the lines goes on.
\<close>

definition translate_shape :: "bool \<Rightarrow> pyval list \<Rightarrow> pyerr + pyval option" where
  "translate_shape pronounce response' =
     and_then (and_then (list_index response' 1) (\<lambda>b. py_index b 0)) (\<lambda>response.
     and_then (py_len response) (\<lambda>n.
       if n = 1 then
         and_then (py_index response 0) (\<lambda>r0.
         and_then (py_len r0) (\<lambda>k.
           if k > 5 then
             and_then (py_index r0 5) (\<lambda>sentences.
             and_then (py_iter sentences) (\<lambda>ss.
             and_then (join_sentences [] ss) (\<lambda>translate_text.
               if \<not> pronounce then Inr (Some (PStr translate_text))
               else and_then (pronunciations response') (\<lambda>(pronounce_src, pronounce_tgt).
                      Inr (Some (PList [PStr translate_text, pronounce_src, pronounce_tgt]))))))
           else
             and_then (py_index r0 0) (\<lambda>sentences.
               if pronounce then Inr (Some (PList [sentences, PNone, PNone]))
               else Inr (Some sentences))))
       else if n = 2 then
         and_then (py_iter response) (\<lambda>items.
         and_then (first_items items) (\<lambda>sentences.
           if \<not> pronounce then Inr (Some (PList sentences))
           else and_then (pronunciations response') (\<lambda>(pronounce_src, pronounce_tgt).
                  Inr (Some (PList [PList sentences, pronounce_src, pronounce_tgt])))))
       else Inr None))"

text \<open>The body of the inner \<open>try\<close> of \<open>translate\<close>, lines 119 to 150, for one line.\<close>

definition translate_line :: "env \<Rightarrow> bool \<Rightarrow> string \<Rightarrow> pyerr + pyval option" where
  "translate_line env pronounce decoded_line =
     and_then (decode_envelope env decoded_line) (translate_shape pronounce)"

text \<open>
  The loop over the lines of the body in \<open>translate\<close>: a line without the marker is
  passed over; a line with it is decoded and dispatched, and the loop ends there when
  that raises or returns.
\<close>

fun translate_lines :: "env \<Rightarrow> bool \<Rightarrow> string list \<Rightarrow> pyerr + pyval option" where
  "translate_lines env pronounce [] = Inr None"
| "translate_lines env pronounce (decoded_line # rest) =
     (case first_rpc env of
        Inl e \<Rightarrow> Inl e
      | Inr marker \<Rightarrow>
          if py_in marker decoded_line
          then (case translate_line env pronounce decoded_line of
                  Inl e \<Rightarrow> Inl e
                | Inr (Some v) \<Rightarrow> Inr (Some v)
                | Inr None \<Rightarrow> translate_lines env pronounce rest)
          else translate_lines env pronounce rest)"

definition translate :: "env \<Rightarrow> pyarg \<Rightarrow> string \<Rightarrow> string \<Rightarrow> bool \<Rightarrow> outcome" where
  "translate env text0 source_lang target_lang pronounce =
     (case py_str text0 of
        Inl e \<Rightarrow> \<lparr>result = Inl e, posted = [], logged = []\<rparr>
      | Inr text \<Rightarrow>
          if length text \<ge> 5000
          then \<lparr>result = Inr PNone, posted = [], logged = [TranslateTooLong]\<rparr>
          else if length text = 0
          then \<lparr>result = Inr (PStr []), posted = [], logged = [NothingToTranslate]\<rparr>
          else
            let (src_lang, w1) = process_lang env source_lang;
                (tgt_lang, w2) = process_lang env target_lang
            in case f_req_data env (ArgStr text) src_lang tgt_lang of
                 Inl e \<Rightarrow> \<lparr>result = Inl e, posted = [], logged = w1 @ w2\<rparr>
               | Inr f_req \<Rightarrow>
                   \<lparr>result =
                      (case post env f_req of
                         TimedOut \<Rightarrow> Inl ConnectTimeout
                       | Failed \<Rightarrow>
                           Inl (GoogleTranslateError_init None (Some GoogleTranslate_self) None)
                       | Responded r \<Rightarrow>
                           (case translate_lines env pronounce (lines r) of
                              Inl e \<Rightarrow> Inl e
                            | Inr (Some v) \<Rightarrow> Inr v
                            | Inr None \<Rightarrow>
                                if raises_for_status r
                                then Inl (GoogleTranslateError_init None
                                            (Some GoogleTranslate_self) (Some r))
                                else Inr PNone)),
                    posted = [f_req], logged = w1 @ w2\<rparr>)"

subsection \<open>\<open>translate.py\<close>: detecting a language\<close>

text \<open>Lines 197 to 200 of \<open>detect\<close>: the detected code, lower-cased.\<close>

definition detect_code :: "env \<Rightarrow> string \<Rightarrow> pyerr + string" where
  "detect_code env decoded_line =
     and_then (json_loads env (PStr decoded_line)) (\<lambda>outer.
     and_then (and_then (py_index outer 0) (\<lambda>b. py_index b 2)) (\<lambda>r02.
     and_then (json_loads env r02) (\<lambda>response.
     and_then (and_then (py_index response 0) (\<lambda>b. py_index b 2)) py_lower)))"

text \<open>
  Lines 196 to 203 of \<open>detect\<close>, for one line: the one-entry dict, or an exception
  (\<open>KeyError\<close> when the code is not a key of \<open>LANGUAGES\<close>).
\<close>

definition detect_line :: "env \<Rightarrow> string \<Rightarrow> pyerr + pyval" where
  "detect_line env decoded_line =
     and_then (detect_code env decoded_line) (\<lambda>detected_lang.
       case LANGUAGES env detected_lang of
         None \<Rightarrow> Inl KeyError
       | Some name \<Rightarrow> Inr (PDict [(detected_lang, PStr name)]))"

text \<open>
  The loop over the lines of the body in \<open>detect\<close>: a line without the marker is
  passed over, the first line with the marker ends the loop.
\<close>

fun detect_lines :: "env \<Rightarrow> string list \<Rightarrow> pyerr + pyval option" where
  "detect_lines env [] = Inr None"
| "detect_lines env (decoded_line # rest) =
     (case first_rpc env of
        Inl e \<Rightarrow> Inl e
      | Inr marker \<Rightarrow>
          if py_in marker decoded_line
          then and_then (detect_line env decoded_line) (\<lambda>v. Inr (Some v))
          else detect_lines env rest)"

definition detect :: "env \<Rightarrow> pyarg \<Rightarrow> outcome" where
  "detect env text =
     (case arg_len text of
        Inl e \<Rightarrow> \<lparr>result = Inl e, posted = [], logged = []\<rparr>
      | Inr n \<Rightarrow>
          if n \<ge> 5000
          then \<lparr>result = Inr PNone, posted = [], logged = [DetectTooLong]\<rparr>
          else if n = 0
          then \<lparr>result = Inr PNone, posted = [], logged = [NothingToDetect]\<rparr>
          else
            case f_req_data env text ''auto'' ''auto'' of
              Inl e \<Rightarrow> \<lparr>result = Inl e, posted = [], logged = []\<rparr>
            | Inr f_req \<Rightarrow>
                \<lparr>result =
                   (case post env f_req of
                      TimedOut \<Rightarrow>
                        Inl (GoogleTranslateError_init None (Some GoogleTranslate_self) None)
                    | Failed \<Rightarrow>
                        Inl (GoogleTranslateError_init None (Some GoogleTranslate_self) None)
                    | Responded r \<Rightarrow>
                        (case detect_lines env (lines r) of
                           Inl e \<Rightarrow> Inl e
                         | Inr (Some v) \<Rightarrow> Inr v
                         | Inr None \<Rightarrow>
                             if raises_for_status r
                             then Inl (GoogleTranslateError_init None
                                         (Some GoogleTranslate_self) (Some r))
                             else Inr PNone)),
                 posted = [f_req], logged = []\<rparr>)"

section \<open>A mocked backend\<close>

text \<open>
  Concrete values to run the client on: a transport that answers every request with the
  same response, a \<open>json.loads\<close> that knows the marked line and the payload string
  inside it, a two-entry language table and a single RPC id. The stand-in for
  \<open>json.dumps\<close> writes compact JSON without escaping inside strings (and every
  float, which the client never sends, as \<open>0.0\<close>), the stand-in for \<open>quote\<close> leaves
  its argument as it is.
\<close>

fun mock_dumps :: "pyval \<Rightarrow> string" where
  "mock_dumps PNone = ''null''"
| "mock_dumps (PBool b) = (if b then ''true'' else ''false'')"
| "mock_dumps (PInt i) = show_int i"
| "mock_dumps (PFloat m e) = ''0.0''"
| "mock_dumps (PStr s) = [CHR 0x22] @ s @ [CHR 0x22]"
| "mock_dumps (PList xs) = ''['' @ join_with '','' (map mock_dumps xs) @ '']''"
| "mock_dumps (PDict kvs) =
     ''{'' @ join_with '','' (map (\<lambda>(k, v). [CHR 0x22] @ k @ [CHR 0x22] @ '':'' @ mock_dumps v) kvs)
       @ ''}''"

definition mock_line :: string where
  \<open>mock_line = ''[["wrb.fr","MkEWBc","payload"]]''\<close>

definition mock_other_line :: string where
  \<open>mock_other_line = ''[["wrb.fr","MkEWBc","other"]]''\<close>

definition mock_languages :: "string \<rightharpoonup> string" where
  "mock_languages = [''en'' \<mapsto> ''english'', ''es'' \<mapsto> ''spanish'']"

definition mock_response :: "int \<Rightarrow> string \<Rightarrow> string list \<Rightarrow> response" where
  "mock_response status phrase body = \<lparr>status_code = status, reason = phrase, lines = body\<rparr>"

definition mock_ok :: response where
  "mock_ok = mock_response 200 ''OK'' ['')]}'', mock_line]"

text \<open>A body with two lines that carry the marker, \<open>mock_other_line\<close> first.\<close>

definition mock_two_marked :: response where
  "mock_two_marked = mock_response 200 ''OK'' ['')]}'', mock_other_line, mock_line]"

text \<open>
  What \<open>mock_other_line\<close> holds: a translation array of three elements, a shape
  \<open>translate\<close> has no branch for, and the code \<open>es\<close> where \<open>detect\<close> reads.
\<close>

definition three_segments :: pyval where
  "three_segments =
     PList [PList [PNone, PNone, PStr ''es''],
            PList [PList [PList [PStr ''uno''], PList [PStr ''dos''], PList [PStr ''tres'']],
                   PStr ''en'']]"

definition mock_env :: "pyval \<Rightarrow> response \<Rightarrow> env" where
  "mock_env payload r =
     \<lparr>GOOGLE_TTS_RPC = [''MkEWBc''],
      LANGUAGES = mock_languages,
      randbelow = 0,
      dumps = mock_dumps,
      quote = id,
      loads = [mock_line \<mapsto> PList [PList [PStr ''wrb.fr'', PStr ''MkEWBc'', PStr ''payload'']],
               ''payload'' \<mapsto> payload,
               mock_other_line \<mapsto> PList [PList [PStr ''wrb.fr'', PStr ''MkEWBc'', PStr ''other'']],
               ''other'' \<mapsto> three_segments],
      post = (\<lambda>_. Responded r)\<rparr>"

text \<open>
  One sentence in two fragments, no pronunciation on either side. The first piece has a
  space in front, the second a tab in front and a newline behind.
\<close>

definition single_sentence :: pyval where
  "single_sentence =
     PList [PList [PNone, PNone, PStr ''en''],
            PList [PList [PList [PNone, PNone, PNone, PNone, PNone,
                                 PList [PList [PStr '' Hola'', PStr '' ''],
                                        PList [PStr ([CHR 0x09] @ ''mundo'' @ [CHR 0x0A])]]]],
                   PStr ''es'']]"

text \<open>One element with six positions and no fragment at position 5.\<close>

definition no_fragments :: pyval where
  "no_fragments =
     PList [PList [PNone, PNone, PStr ''en''],
            PList [PList [PList [PNone, PNone, PNone, PNone, PNone, PList []]], PStr ''es'']]"

text \<open>The answer to a URL: one element with a single position.\<close>

definition bare_url :: pyval where
  "bare_url =
     PList [PList [PNone, PNone, PStr ''en''],
            PList [PList [PList [PStr ''https://example.com'']], PStr ''es'']]"

text \<open>Two candidate segments, a pronunciation on both sides.\<close>

definition two_candidates :: pyval where
  "two_candidates =
     PList [PList [PStr ''privet'', PNone, PStr ''ru''],
            PList [PList [PList [PStr ''hello'', PStr ''helo''], PList [PStr ''hi'', PNone]],
                   PStr ''en'']]"

text \<open>
  Two candidate segments without the pronunciation positions: the first branch has one
  position, and so has each segment.
\<close>

definition short_candidates :: pyval where
  "short_candidates =
     PList [PList [PStr ''privet''],
            PList [PList [PList [PStr ''hello''], PList [PStr ''hi'']], PStr ''en'']]"

text \<open>A detection answer with the code in upper case.\<close>

definition detected_EN :: pyval where
  "detected_EN = PList [PList [PNone, PNone, PStr ''EN'']]"

text \<open>A \<open>tts\<close> object that has both attributes, with the language check switched off.\<close>

definition unchecked_client :: client where
  "unchecked_client = \<lparr>lang_check = Some False, lang = Some ''xx''\<rparr>"

section \<open>Properties\<close>

subsection \<open>Auxiliary facts\<close>

lemma and_then_Inr [simp]: "and_then (Inr v) f = f v"
  by (simp add: and_then_def)

lemma and_then_Inl [simp]: "and_then (Inl e) f = Inl e"
  by (simp add: and_then_def)

lemmas mock_defs =
  mock_env_def mock_ok_def mock_two_marked_def mock_response_def mock_line_def
  mock_other_line_def mock_languages_def single_sentence_def no_fragments_def bare_url_def
  two_candidates_def short_candidates_def three_segments_def detected_EN_def
  unchecked_client_def

lemmas client_defs =
  translate_def detect_def f_req_data_def random_choice_def first_rpc_def
  translate_line_def decode_envelope_def translate_shape_def pronunciations_def
  detect_line_def detect_code_def list_index_def raises_for_status_def
  strip_def isspace_def lower_def lower_char_def

text \<open>\<open>py_in\<close> is the contiguous-sublist relation of the library.\<close>

lemma py_in_sublist: "py_in m s \<longleftrightarrow> sublist m s"
proof (induction s)
  case Nil
  then show ?case by auto
next
  case (Cons c cs)
  then show ?case by (cases m) (simp_all add: sublist_Cons_right)
qed

lemma translate_lines_no_marker:
  "first_rpc env = Inr marker \<Longrightarrow> find (py_in marker) ls = None \<Longrightarrow>
   translate_lines env pronounce ls = Inr None"
  by (induction ls) (auto split: if_splits)

lemma translate_lines_first_marked:
  "first_rpc env = Inr marker \<Longrightarrow> find (py_in marker) ls = Some l \<Longrightarrow>
   translate_line env pronounce l \<noteq> Inr None \<Longrightarrow>
   translate_lines env pronounce ls = translate_line env pronounce l"
  by (induction ls) (auto split: if_splits sum.splits option.splits)

lemma detect_lines_first_marked:
  "first_rpc env = Inr marker \<Longrightarrow> find (py_in marker) ls = Some l \<Longrightarrow>
   detect_lines env ls = and_then (detect_line env l) (\<lambda>v. Inr (Some v))"
  by (induction ls) (auto split: if_splits)

lemma f_req_data_ok:
  "GOOGLE_TTS_RPC env \<noteq> [] \<Longrightarrow> \<exists>body. f_req_data env (ArgStr text) s t = Inr body"
  by (simp add: f_req_data_def random_choice_def Let_def)

text \<open>What \<open>translate\<close> and \<open>detect\<close> return once a response has come back.\<close>

lemma translate_responded:
  assumes "text \<noteq> []" "length text < 5000"
    and "GOOGLE_TTS_RPC env = marker # others"
    and "\<forall>body. post env body = Responded r"
  shows "result (translate env (ArgStr text) s t p) =
     (case translate_lines env p (lines r) of
        Inl e \<Rightarrow> Inl e
      | Inr (Some v) \<Rightarrow> Inr v
      | Inr None \<Rightarrow> if raises_for_status r
                     then Inl (GoogleTranslateError_init None (Some GoogleTranslate_self) (Some r))
                     else Inr PNone)"
proof -
  obtain body where
    "f_req_data env (ArgStr text) (fst (process_lang env s)) (fst (process_lang env t)) = Inr body"
    using f_req_data_ok [of env] assms(3) by fastforce
  then show ?thesis
    using assms by (simp add: translate_def Let_def split_beta del: process_lang.simps)
qed

lemma detect_responded:
  assumes "text \<noteq> []" "length text < 5000"
    and "GOOGLE_TTS_RPC env = marker # others"
    and "\<forall>body. post env body = Responded r"
  shows "result (detect env (ArgStr text)) =
     (case detect_lines env (lines r) of
        Inl e \<Rightarrow> Inl e
      | Inr (Some v) \<Rightarrow> Inr v
      | Inr None \<Rightarrow> if raises_for_status r
                     then Inl (GoogleTranslateError_init None (Some GoogleTranslate_self) (Some r))
                     else Inr PNone)"
proof -
  obtain body where "f_req_data env (ArgStr text) ''auto'' ''auto'' = Inr body"
    using f_req_data_ok [of env] assms(3) by fastforce
  then show ?thesis
    using assms by (simp add: detect_def)
qed

lemma translate_returns:
  assumes "text \<noteq> []" "length text < 5000"
    and "GOOGLE_TTS_RPC env = marker # others"
    and "\<forall>body. post env body = Responded r"
    and "find (py_in marker) (lines r) = Some l"
    and "translate_line env p l = Inr (Some v)"
  shows "result (translate env (ArgStr text) s t p) = Inr v"
proof -
  have "first_rpc env = Inr marker"
    using assms(3) by (simp add: first_rpc_def)
  then have "translate_lines env p (lines r) = Inr (Some v)"
    using translate_lines_first_marked [of env marker "lines r" l p] assms(5,6) by simp
  then show ?thesis
    using translate_responded [OF assms(1-4), of s t p] by simp
qed

lemma join_sentences_pieces:
  "map (\<lambda>f. py_index f 0) fragments = map (\<lambda>p. Inr (PStr p)) pieces \<Longrightarrow>
   join_sentences acc fragments = Inr (acc @ concat (map (\<lambda>p. strip p @ '' '') pieces))"
proof (induction fragments arbitrary: acc pieces)
  case Nil
  then show ?case by simp
next
  case (Cons f fs)
  then obtain p ps where "pieces = p # ps" by (cases pieces) auto
  with Cons show ?case by simp
qed

lemma concat_pieces_last:
  "pieces \<noteq> [] \<Longrightarrow> last (concat (map (\<lambda>p. strip p @ '' '') pieces)) = CHR '' ''"
  by (induction pieces rule: rev_induct) auto

text \<open>
  \<open>strip\<close> takes whitespace, and nothing else, from both ends, and leaves none at
  either end.
\<close>

lemma strip_parts:
  "\<exists>a b. s = a @ strip s @ b \<and> (\<forall>c\<in>set a. isspace c) \<and> (\<forall>c\<in>set b. isspace c)"
proof -
  let ?t = "dropWhile isspace s"
  have s: "s = takeWhile isspace s @ ?t" by simp
  have "?t = rev (dropWhile isspace (rev ?t)) @ rev (takeWhile isspace (rev ?t))"
    by (metis rev_append rev_rev_ident takeWhile_dropWhile_id)
  then have t: "?t = strip s @ rev (takeWhile isspace (rev ?t))"
    by (simp only: strip_def)
  have "s = takeWhile isspace s @ strip s @ rev (takeWhile isspace (rev ?t))"
    using s t by simp
  moreover have "\<forall>c\<in>set (takeWhile isspace s). isspace c"
    by (auto dest: set_takeWhileD)
  moreover have "\<forall>c\<in>set (rev (takeWhile isspace (rev ?t))). isspace c"
    by (auto dest: set_takeWhileD)
  ultimately show ?thesis by blast
qed

lemma strip_ends:
  assumes "strip s \<noteq> []"
  shows "\<not> isspace (hd (strip s)) \<and> \<not> isspace (last (strip s))"
proof -
  let ?t = "dropWhile isspace s"
  let ?u = "dropWhile isspace (rev ?t)"
  have u: "?u \<noteq> []" using assms by (simp add: strip_def)
  have t: "?t \<noteq> []"
  proof
    assume e: "?t = []"
    have "?u = []" unfolding e by simp
    with u show False by simp
  qed
  have "last (strip s) = hd ?u"
    using u by (simp add: strip_def last_rev)
  moreover have "\<not> isspace (hd ?u)"
    using u by (rule hd_dropWhile)
  moreover have "hd (strip s) = last ?u"
    using u by (simp add: strip_def hd_rev)
  moreover have "last ?u = last (rev ?t)"
  proof -
    have "rev ?t = takeWhile isspace (rev ?t) @ ?u" by simp
    then show ?thesis using u by (metis last_appendR)
  qed
  moreover have "last (rev ?t) = hd ?t"
    using t by (simp add: last_rev)
  moreover have "\<not> isspace (hd ?t)"
    using t by (rule hd_dropWhile)
  ultimately show ?thesis by simp
qed

text \<open>An integer has more than \<open>k\<close> digits exactly when it is at least \<open>10 ^ k\<close>.\<close>

lemma show_nat_nonempty: "show_nat n \<noteq> []"
  by (subst show_nat.simps) simp

lemma show_nat_length:
  "0 < k \<Longrightarrow> k < length (show_nat n) \<longleftrightarrow> 10 ^ k \<le> n"
proof (induction n arbitrary: k rule: show_nat.induct)
  case (1 n)
  show ?case
  proof (cases "n < 10")
    case True
    have "(10::nat) ^ 1 \<le> 10 ^ k"
      using 1(2) by (intro power_increasing) simp_all
    then have "\<not> 10 ^ k \<le> n" using True by simp
    moreover have "length (show_nat n) = 1"
      using True by (subst show_nat.simps) simp
    ultimately show ?thesis using 1(2) by simp
  next
    case False
    have len: "length (show_nat n) = Suc (length (show_nat (n div 10)))"
      using False by (subst show_nat.simps) simp
    show ?thesis
    proof (cases "k = 1")
      case True
      have "0 < length (show_nat (n div 10))"
        using show_nat_nonempty by simp
      then show ?thesis using True False len by simp
    next
      case k: False
      then obtain j where j: "k = Suc j" "0 < j"
        using 1(2) by (cases k) auto
      have "j < length (show_nat (n div 10)) \<longleftrightarrow> 10 ^ j \<le> n div 10"
        using 1(1) [OF False j(2)] .
      moreover have "10 ^ j \<le> n div 10 \<longleftrightarrow> 10 ^ Suc j \<le> n"
        by (simp add: less_eq_div_iff_mult_less_eq mult.commute)
      ultimately show ?thesis using len j by simp
    qed
  qed
qed

lemma int_str_limit:
  "int_str i =
     (if 10 ^ int_max_str_digits \<le> \<bar>i\<bar> then Inl ValueError else Inr (show_int i))"
proof -
  have pos: "0 < int_max_str_digits"
    by (simp add: int_max_str_digits_def)
  have "int_max_str_digits < length (show_nat (nat \<bar>i\<bar>))
          \<longleftrightarrow> 10 ^ int_max_str_digits \<le> nat \<bar>i\<bar>"
    using pos by (rule show_nat_length)
  also have "\<dots> \<longleftrightarrow> 10 ^ int_max_str_digits \<le> \<bar>i\<bar>"
    by (simp only: le_nat_iff abs_ge_zero of_nat_power of_nat_numeral)
  finally show ?thesis
    by (simp only: int_str_def)
qed

lemma translate_raises:
  assumes "text \<noteq> []" "length text < 5000"
    and "GOOGLE_TTS_RPC env = marker # others"
    and "\<forall>body. post env body = Responded r"
    and "find (py_in marker) (lines r) = Some l"
    and "translate_line env p l = Inl e"
  shows "result (translate env (ArgStr text) s t p) = Inl e"
proof -
  have "first_rpc env = Inr marker"
    using assms(3) by (simp add: first_rpc_def)
  then have "translate_lines env p (lines r) = Inl e"
    using translate_lines_first_marked [of env marker "lines r" l p] assms(5,6) by simp
  then show ?thesis
    using translate_responded [OF assms(1-4), of s t p] by simp
qed

text \<open>
  The dispatch with \<open>pronounce\<close> set, in terms of the dispatch without it, for each
  shape that has a branch.
\<close>

lemma translate_shape_bare:
  assumes "list_index response' 1 = Inr branch" "py_index branch 0 = Inr response"
    and "py_len response = Inr 1" "and_then (py_index response 0) py_len = Inr k" "k \<le> 5"
  shows "translate_shape True response' =
           (case translate_shape False response' of
              Inl e \<Rightarrow> Inl e
            | Inr None \<Rightarrow> Inr None
            | Inr (Some v) \<Rightarrow> Inr (Some (PList [v, PNone, PNone])))"
    and "translate_shape p response' \<noteq> Inr None"
proof -
  obtain r0 where r0: "py_index response 0 = Inr r0" "py_len r0 = Inr k"
    using assms(4) by (cases "py_index response 0") simp_all
  show "translate_shape True response' =
           (case translate_shape False response' of
              Inl e \<Rightarrow> Inl e
            | Inr None \<Rightarrow> Inr None
            | Inr (Some v) \<Rightarrow> Inr (Some (PList [v, PNone, PNone])))"
    using assms(1-3,5) r0 by (cases "py_index r0 0") (simp_all add: translate_shape_def)
  show "translate_shape p response' \<noteq> Inr None"
    using assms(1-3,5) r0 by (cases "py_index r0 0") (simp_all add: translate_shape_def)
qed

lemma translate_shape_single:
  assumes "list_index response' 1 = Inr branch" "py_index branch 0 = Inr response"
    and "py_len response = Inr 1" "and_then (py_index response 0) py_len = Inr k" "5 < k"
  shows "translate_shape True response' =
           (case translate_shape False response' of
              Inl e \<Rightarrow> Inl e
            | Inr None \<Rightarrow> Inr None
            | Inr (Some v) \<Rightarrow>
                and_then (pronunciations response') (\<lambda>(a, b). Inr (Some (PList [v, a, b]))))"
    and "translate_shape False response' \<noteq> Inr None"
proof -
  obtain r0 where r0: "py_index response 0 = Inr r0" "py_len r0 = Inr k"
    using assms(4) by (cases "py_index response 0") simp_all
  have shape: "translate_shape p response' =
      and_then (py_index r0 5) (\<lambda>sentences.
      and_then (py_iter sentences) (\<lambda>ss.
      and_then (join_sentences [] ss) (\<lambda>translate_text.
        if \<not> p then Inr (Some (PStr translate_text))
        else and_then (pronunciations response') (\<lambda>(pronounce_src, pronounce_tgt).
               Inr (Some (PList [PStr translate_text, pronounce_src, pronounce_tgt]))))))" for p
    using assms(1-3,5) r0 by (simp add: translate_shape_def)
  show "translate_shape True response' =
           (case translate_shape False response' of
              Inl e \<Rightarrow> Inl e
            | Inr None \<Rightarrow> Inr None
            | Inr (Some v) \<Rightarrow>
                and_then (pronunciations response') (\<lambda>(a, b). Inr (Some (PList [v, a, b]))))"
    unfolding shape
    by (cases "py_index r0 5"; simp; cases "py_iter (projr (py_index r0 5))"; simp;
        cases "join_sentences [] (projr (py_iter (projr (py_index r0 5))))"; simp)
  show "translate_shape False response' \<noteq> Inr None"
    unfolding shape
    by (cases "py_index r0 5"; simp; cases "py_iter (projr (py_index r0 5))"; simp;
        cases "join_sentences [] (projr (py_iter (projr (py_index r0 5))))"; simp)
qed

lemma translate_shape_two:
  assumes "list_index response' 1 = Inr branch" "py_index branch 0 = Inr response"
    and "py_len response = Inr 2"
  shows "translate_shape True response' =
           (case translate_shape False response' of
              Inl e \<Rightarrow> Inl e
            | Inr None \<Rightarrow> Inr None
            | Inr (Some v) \<Rightarrow>
                and_then (pronunciations response') (\<lambda>(a, b). Inr (Some (PList [v, a, b]))))"
    and "translate_shape False response' \<noteq> Inr None"
proof -
  have shape: "translate_shape p response' =
      and_then (py_iter response) (\<lambda>items.
      and_then (first_items items) (\<lambda>sentences.
        if \<not> p then Inr (Some (PList sentences))
        else and_then (pronunciations response') (\<lambda>(pronounce_src, pronounce_tgt).
               Inr (Some (PList [PList sentences, pronounce_src, pronounce_tgt])))))" for p
    using assms by (simp add: translate_shape_def)
  show "translate_shape True response' =
           (case translate_shape False response' of
              Inl e \<Rightarrow> Inl e
            | Inr None \<Rightarrow> Inr None
            | Inr (Some v) \<Rightarrow>
                and_then (pronunciations response') (\<lambda>(a, b). Inr (Some (PList [v, a, b]))))"
    unfolding shape
    by (cases "py_iter response"; simp; cases "first_items (projr (py_iter response))"; simp)
  show "translate_shape False response' \<noteq> Inr None"
    unfolding shape
    by (cases "py_iter response"; simp; cases "first_items (projr (py_iter response))"; simp)
qed

text \<open>The two loops over the lines, as searches.\<close>

lemma translate_lines_scan:
  "first_rpc env = Inr marker \<Longrightarrow>
   translate_lines env p ls =
     (case find (\<lambda>l. translate_line env p l \<noteq> Inr None) (filter (py_in marker) ls) of
        None \<Rightarrow> Inr None
      | Some l \<Rightarrow> translate_line env p l)"
proof (induction ls)
  case Nil
  then show ?case by simp
next
  case (Cons l ls)
  show ?case
  proof (cases "py_in marker l")
    case False
    then show ?thesis using Cons by simp
  next
    case True
    show ?thesis
    proof (cases "translate_line env p l")
      case (Inl e)
      then show ?thesis using Cons True by simp
    next
      case (Inr res)
      then show ?thesis using Cons True by (cases res) simp_all
    qed
  qed
qed

lemma detect_lines_scan:
  "first_rpc env = Inr marker \<Longrightarrow>
   detect_lines env ls =
     (case find (py_in marker) ls of
        None \<Rightarrow> Inr None
      | Some l \<Rightarrow> and_then (detect_line env l) (\<lambda>v. Inr (Some v)))"
  by (induction ls) simp_all

subsection \<open>Language codes\<close>

text \<open>
  Claim C9. A language argument of \<open>translate\<close> that is \<open>"auto"\<close> or a key of
  \<open>LANGUAGES\<close> is passed on as it is, without a warning. Any other value is replaced
  by \<open>"auto"\<close>, with one warning and nothing else: \<open>translate\<close> returns (or raises) and
  posts exactly what it does for \<open>"auto"\<close> in that place, whether the value is the source
  or the target language.
\<close>

theorem process_lang_coercion:
  "process_lang env ''auto'' = (''auto'', [])
   \<and> (l \<in> dom (LANGUAGES env) \<longrightarrow> process_lang env l = (l, []))
   \<and> (l \<noteq> ''auto'' \<and> l \<notin> dom (LANGUAGES env) \<longrightarrow>
        process_lang env l = (''auto'', [LangNotSupported l])
        \<and> result (translate env text l tgt p) = result (translate env text ''auto'' tgt p)
        \<and> posted (translate env text l tgt p) = posted (translate env text ''auto'' tgt p)
        \<and> result (translate env text src l p) = result (translate env text src ''auto'' p)
        \<and> posted (translate env text src l p) = posted (translate env text src ''auto'' p))"
  by (auto simp: translate_def Let_def split: sum.splits)

theorem process_lang_coercion_witness:
  "''es'' \<in> dom (LANGUAGES (mock_env single_sentence mock_ok))
   \<and> process_lang (mock_env single_sentence mock_ok) ''es'' = (''es'', [])
   \<and> ''xx'' \<noteq> ''auto'' \<and> ''xx'' \<notin> dom (LANGUAGES (mock_env single_sentence mock_ok))
   \<and> process_lang (mock_env single_sentence mock_ok) ''xx'' = (''auto'', [LangNotSupported ''xx''])
   \<and> translate (mock_env single_sentence mock_ok) (ArgStr ''hello'') ''xx'' ''es'' False =
       translate (mock_env single_sentence mock_ok) (ArgStr ''hello'') ''auto'' ''es'' False
         \<lparr>logged := [LangNotSupported ''xx'']\<rparr>
   \<and> result (translate (mock_env single_sentence mock_ok) (ArgStr ''hello'') ''xx'' ''es'' False)
       = Inr (PStr ''Hola mundo '')"
  using process_lang_coercion [of "mock_env single_sentence mock_ok" "''es''"]
    process_lang_coercion [of "mock_env single_sentence mock_ok" "''xx''"
      "ArgStr ''hello''" "''es''" False]
  by (simp add: mock_defs client_defs show_int_def show_nat.simps)

subsection \<open>The size and emptiness guards\<close>

text \<open>
  Claim C7. For a text of 5000 characters or more, \<open>translate\<close> and \<open>detect\<close> return
  \<open>None\<close>; for the empty text \<open>translate\<close> returns the empty string and \<open>detect\<close>
  returns \<open>None\<close>. In all four cases nothing is raised, nothing is posted, and the only
  effect is one warning.
\<close>

theorem guards_short_circuit:
  "(5000 \<le> length text \<longrightarrow>
      translate env (ArgStr text) source_lang target_lang pronounce =
        \<lparr>result = Inr PNone, posted = [], logged = [TranslateTooLong]\<rparr>
      \<and> detect env (ArgStr text) =
        \<lparr>result = Inr PNone, posted = [], logged = [DetectTooLong]\<rparr>)
   \<and> translate env (ArgStr []) source_lang target_lang pronounce =
        \<lparr>result = Inr (PStr []), posted = [], logged = [NothingToTranslate]\<rparr>
   \<and> detect env (ArgStr []) =
        \<lparr>result = Inr PNone, posted = [], logged = [NothingToDetect]\<rparr>"
  by (simp add: translate_def detect_def)

theorem guards_short_circuit_witness:
  "5000 \<le> length (replicate 5000 CHR ''a'')
   \<and> translate (mock_env single_sentence mock_ok) (ArgStr (replicate 5000 CHR ''a''))
        ''auto'' ''es'' False =
        \<lparr>result = Inr PNone, posted = [], logged = [TranslateTooLong]\<rparr>
   \<and> detect (mock_env single_sentence mock_ok) (ArgStr (replicate 5000 CHR ''a'')) =
        \<lparr>result = Inr PNone, posted = [], logged = [DetectTooLong]\<rparr>"
  using guards_short_circuit [of "replicate 5000 CHR ''a''" "mock_env single_sentence mock_ok"
      "''auto''" "''es''" False]
  by simp

subsection \<open>The shapes of a translation\<close>

text \<open>
  In the theorems of this subsection the text passes both guards, the candidate list
  starts with \<open>marker\<close>, the transport answers with the response \<open>r\<close>,
  \<open>decoded_line\<close> is the first line of \<open>r\<close> that contains the marker, and it decodes
  to the envelope \<open>response'\<close>, whose position \<open>[1][0]\<close> is the translation array.
\<close>

text \<open>
  Claim C1, as the code has it. When the translation array has one element and that
  element has more than five positions, position 5 is read as the list of fragments, and
  \<open>translate\<close> returns the first elements of the fragments, each stripped (whitespace
  taken from both ends, nothing else) and followed by one space, concatenated in order.
  The result ends with a space when there is at least one fragment, and is the empty
  string when there is none. With \<open>pronounce\<close> set, that text comes back in a list
  with the two pronunciations.
\<close>

theorem translate_single_sentence:
  assumes "text \<noteq> []" and "length text < 5000"
    and "GOOGLE_TTS_RPC env = marker # others"
    and "\<forall>body. post env body = Responded r"
    and "find (py_in marker) (lines r) = Some decoded_line"
    and "decode_envelope env decoded_line = Inr response'"
    and "list_index response' 1 = Inr branch"
    and "py_index branch 0 = Inr (PList [element])"
    and "py_len element = Inr k" and "5 < k"
    and "py_index element 5 = Inr sentences"
    and "py_iter sentences = Inr fragments"
    and "map (\<lambda>f. py_index f 0) fragments = map (\<lambda>p. Inr (PStr p)) pieces"
  shows "result (translate env (ArgStr text) source_lang target_lang False) =
           Inr (PStr (concat (map (\<lambda>p. strip p @ '' '') pieces)))
         \<and> (\<forall>p\<in>set pieces. \<exists>a b. p = a @ strip p @ b
               \<and> (\<forall>c\<in>set a. isspace c) \<and> (\<forall>c\<in>set b. isspace c)
               \<and> (strip p \<noteq> [] \<longrightarrow>
                    \<not> isspace (hd (strip p)) \<and> \<not> isspace (last (strip p))))
         \<and> (pieces \<noteq> [] \<longrightarrow> last (concat (map (\<lambda>p. strip p @ '' '') pieces)) = CHR '' '')
         \<and> (pieces = [] \<longrightarrow>
               result (translate env (ArgStr text) source_lang target_lang False) = Inr (PStr []))
         \<and> (\<forall>pronounce_src pronounce_tgt.
               pronunciations response' = Inr (pronounce_src, pronounce_tgt) \<longrightarrow>
               result (translate env (ArgStr text) source_lang target_lang True) =
                 Inr (PList [PStr (concat (map (\<lambda>p. strip p @ '' '') pieces)),
                             pronounce_src, pronounce_tgt]))"
proof -
  let ?t = "concat (map (\<lambda>p. strip p @ '' '') pieces)"
  have j: "join_sentences [] fragments = Inr ?t"
    using join_sentences_pieces [OF assms(13), of "[]"] by simp
  have "translate_line env False decoded_line = Inr (Some (PStr ?t))"
    using assms(6-12) j by (simp add: translate_line_def translate_shape_def list_index_def)
  then have plain: "result (translate env (ArgStr text) source_lang target_lang False) =
      Inr (PStr ?t)"
    by (rule translate_returns [OF assms(1-5)])
  have "translate_line env True decoded_line = Inr (Some (PList [PStr ?t, a, b]))"
    if "pronunciations response' = Inr (a, b)" for a b
    using assms(6-12) j that by (simp add: translate_line_def translate_shape_def list_index_def)
  then have spoken: "result (translate env (ArgStr text) source_lang target_lang True) =
      Inr (PList [PStr ?t, a, b])" if "pronunciations response' = Inr (a, b)" for a b
    using translate_returns [OF assms(1-5)] that by blast
  have stripped: "\<exists>a b. p = a @ strip p @ b
               \<and> (\<forall>c\<in>set a. isspace c) \<and> (\<forall>c\<in>set b. isspace c)
               \<and> (strip p \<noteq> [] \<longrightarrow>
                    \<not> isspace (hd (strip p)) \<and> \<not> isspace (last (strip p)))" for p
    using strip_parts [of p] strip_ends [of p] by blast
  have empty: "result (translate env (ArgStr text) source_lang target_lang False) = Inr (PStr [])"
    if "pieces = []"
    using plain that by simp
  from plain stripped concat_pieces_last empty spoken show ?thesis by blast
qed

theorem translate_single_sentence_witness:
  "result (translate (mock_env single_sentence mock_ok) (ArgStr ''hello'') ''auto'' ''es'' False) =
     Inr (PStr ''Hola mundo '')
   \<and> strip '' Hola'' = ''Hola''
   \<and> strip ([CHR 0x09] @ ''mundo'' @ [CHR 0x0A]) = ''mundo''
   \<and> last ''Hola mundo '' = CHR '' ''
   \<and> result (translate (mock_env single_sentence mock_ok) (ArgStr ''hello'') ''auto'' ''es'' True) =
     Inr (PList [PStr ''Hola mundo '', PNone, PNone])"
proof -
  let ?env = "mock_env single_sentence mock_ok"
  let ?hola = "'' Hola''"
  let ?mundo = "[CHR 0x09] @ ''mundo'' @ [CHR 0x0A]"
  let ?fragments = "[PList [PStr ?hola, PStr '' ''], PList [PStr ?mundo]]"
  let ?element = "PList [PNone, PNone, PNone, PNone, PNone, PList ?fragments]"
  let ?response = "[PList [PNone, PNone, PStr ''en''], PList [PList [?element], PStr ''es'']]"
  let ?text = "concat (map (\<lambda>p. strip p @ '' '') [?hola, ?mundo])"
  have p: "pronunciations ?response = Inr (PNone, PNone)"
    by (simp add: pronunciations_def list_index_def)
  have s: "strip ?hola = ''Hola''" "strip ?mundo = ''mundo''"
    by (simp_all add: strip_def isspace_def)
  have "result (translate ?env (ArgStr ''hello'') ''auto'' ''es'' False) = Inr (PStr ?text)
         \<and> (\<forall>p\<in>set [?hola, ?mundo]. \<exists>a b. p = a @ strip p @ b
               \<and> (\<forall>c\<in>set a. isspace c) \<and> (\<forall>c\<in>set b. isspace c)
               \<and> (strip p \<noteq> [] \<longrightarrow>
                    \<not> isspace (hd (strip p)) \<and> \<not> isspace (last (strip p))))
         \<and> ([?hola, ?mundo] \<noteq> [] \<longrightarrow> last ?text = CHR '' '')
         \<and> ([?hola, ?mundo] = [] \<longrightarrow>
               result (translate ?env (ArgStr ''hello'') ''auto'' ''es'' False) = Inr (PStr []))
         \<and> (\<forall>pronounce_src pronounce_tgt.
               pronunciations ?response = Inr (pronounce_src, pronounce_tgt) \<longrightarrow>
               result (translate ?env (ArgStr ''hello'') ''auto'' ''es'' True) =
                 Inr (PList [PStr ?text, pronounce_src, pronounce_tgt]))"
    by (rule translate_single_sentence [where marker = "''MkEWBc''" and others = "[]"
          and r = mock_ok and decoded_line = mock_line and response' = ?response
          and branch = "PList [PList [?element], PStr ''es'']" and element = ?element
          and k = 6 and sentences = "PList ?fragments" and fragments = ?fragments])
      (simp_all add: mock_defs client_defs)
  with p s show ?thesis by simp
qed

text \<open>
  Claim C1 as stated fails for an element with six positions and no fragment at
  position 5: \<open>translate\<close> returns the empty string, which has no trailing space.
\<close>

theorem empty_fragments_counterexample:
  "decode_envelope (mock_env no_fragments mock_ok) mock_line =
     Inr [PList [PNone, PNone, PStr ''en''],
          PList [PList [PList [PNone, PNone, PNone, PNone, PNone, PList []]], PStr ''es'']]
   \<and> py_len (PList [PList [PNone, PNone, PNone, PNone, PNone, PList []]]) = Inr 1
   \<and> py_len (PList [PNone, PNone, PNone, PNone, PNone, PList []]) = Inr 6
   \<and> py_index (PList [PNone, PNone, PNone, PNone, PNone, PList []]) 5 = Inr (PList [])
   \<and> result (translate (mock_env no_fragments mock_ok) (ArgStr ''hello'') ''auto'' ''es'' False) =
       Inr (PStr [])"
  by (simp add: mock_defs client_defs int_str_def int_max_str_digits_def
      show_int_def show_nat.simps)

text \<open>
  Claim C3. When the translation array has one element and that element has at most
  five positions, \<open>translate\<close> returns the element's position 0 as it is, and with
  \<open>pronounce\<close> set the list of that value, \<open>None\<close> and \<open>None\<close>. The outcome is
  that of the read \<open>response[0][0]\<close> itself, so an element that has no position 0
  ends the call with the exception of that read.
\<close>

theorem translate_bare_url:
  assumes "text \<noteq> []" and "length text < 5000"
    and "GOOGLE_TTS_RPC env = marker # others"
    and "\<forall>body. post env body = Responded r"
    and "find (py_in marker) (lines r) = Some decoded_line"
    and "decode_envelope env decoded_line = Inr response'"
    and "list_index response' 1 = Inr branch"
    and "py_index branch 0 = Inr (PList [element])"
    and "py_len element = Inr k" and "k \<le> 5"
  shows "result (translate env (ArgStr text) source_lang target_lang False) = py_index element 0
         \<and> result (translate env (ArgStr text) source_lang target_lang True) =
             and_then (py_index element 0) (\<lambda>bare. Inr (PList [bare, PNone, PNone]))"
proof (cases "py_index element 0")
  case (Inl e)
  then have "translate_line env p decoded_line = Inl e" for p
    using assms(6-10) by (simp add: translate_line_def translate_shape_def list_index_def)
  moreover have "first_rpc env = Inr marker"
    using assms(3) by (simp add: first_rpc_def)
  ultimately have "translate_lines env p (lines r) = Inl e" for p
    using translate_lines_first_marked [OF _ assms(5), of env p] by simp
  then show ?thesis
    using translate_responded [OF assms(1-4)] Inl by simp
next
  case (Inr bare)
  then have "translate_line env False decoded_line = Inr (Some bare)"
    and "translate_line env True decoded_line = Inr (Some (PList [bare, PNone, PNone]))"
    using assms(6-10) by (simp_all add: translate_line_def translate_shape_def list_index_def)
  then show ?thesis
    using translate_returns [OF assms(1-5)] Inr by simp
qed

theorem translate_bare_url_witness:
  "result (translate (mock_env bare_url mock_ok) (ArgStr ''https://example.com'')
      ''auto'' ''es'' False) = Inr (PStr ''https://example.com'')
   \<and> result (translate (mock_env bare_url mock_ok) (ArgStr ''https://example.com'')
      ''auto'' ''es'' True) = Inr (PList [PStr ''https://example.com'', PNone, PNone])"
proof -
  let ?element = "PList [PStr ''https://example.com'']"
  have "result (translate (mock_env bare_url mock_ok) (ArgStr ''https://example.com'')
          ''auto'' ''es'' False) = py_index ?element 0
      \<and> result (translate (mock_env bare_url mock_ok) (ArgStr ''https://example.com'')
          ''auto'' ''es'' True) =
          and_then (py_index ?element 0) (\<lambda>bare. Inr (PList [bare, PNone, PNone]))"
    by (rule translate_bare_url [where marker = "''MkEWBc''" and others = "[]"
          and r = mock_ok and decoded_line = mock_line
          and response' = "[PList [PNone, PNone, PStr ''en''],
                            PList [PList [?element], PStr ''es'']]"
          and branch = "PList [PList [?element], PStr ''es'']" and k = 1])
      (simp_all add: mock_defs client_defs)
  then show ?thesis by (simp add: list_index_def)
qed

text \<open>
  Claim C4. When the translation array has two elements, \<open>translate\<close> returns the list
  of their positions 0, in the order of the array; with \<open>pronounce\<close> set it returns
  the list of that list, the source pronunciation and the target pronunciation, read
  from \<open>response_[0][0]\<close> and \<open>response_[1][0][0][1]\<close>.
\<close>

theorem translate_two_candidates:
  assumes "text \<noteq> []" and "length text < 5000"
    and "GOOGLE_TTS_RPC env = marker # others"
    and "\<forall>body. post env body = Responded r"
    and "find (py_in marker) (lines r) = Some decoded_line"
    and "decode_envelope env decoded_line = Inr response'"
    and "list_index response' 1 = Inr branch"
    and "py_index branch 0 = Inr (PList [first, second])"
    and "py_index first 0 = Inr s1"
    and "py_index second 0 = Inr s2"
  shows "result (translate env (ArgStr text) source_lang target_lang False) = Inr (PList [s1, s2])
         \<and> (\<forall>pronounce_src pronounce_tgt.
               pronunciations response' = Inr (pronounce_src, pronounce_tgt) \<longrightarrow>
               result (translate env (ArgStr text) source_lang target_lang True) =
                 Inr (PList [PList [s1, s2], pronounce_src, pronounce_tgt]))"
proof -
  have "translate_line env False decoded_line = Inr (Some (PList [s1, s2]))"
    using assms(6-10) by (simp add: translate_line_def translate_shape_def list_index_def)
  moreover have "translate_line env True decoded_line =
      Inr (Some (PList [PList [s1, s2], a, b]))" if "pronunciations response' = Inr (a, b)" for a b
    using assms(6-10) that by (simp add: translate_line_def translate_shape_def list_index_def)
  ultimately show ?thesis
    using translate_returns [OF assms(1-5)] by blast
qed

theorem translate_two_candidates_witness:
  "result (translate (mock_env two_candidates mock_ok) (ArgStr ''privet'') ''auto'' ''en'' False) =
     Inr (PList [PStr ''hello'', PStr ''hi''])
   \<and> pronunciations [PList [PStr ''privet'', PNone, PStr ''ru''],
         PList [PList [PList [PStr ''hello'', PStr ''helo''], PList [PStr ''hi'', PNone]],
                PStr ''en'']] = Inr (PStr ''privet'', PStr ''helo'')
   \<and> result (translate (mock_env two_candidates mock_ok) (ArgStr ''privet'') ''auto'' ''en'' True) =
     Inr (PList [PList [PStr ''hello'', PStr ''hi''], PStr ''privet'', PStr ''helo''])"
proof -
  let ?first = "PList [PStr ''hello'', PStr ''helo'']"
  let ?second = "PList [PStr ''hi'', PNone]"
  let ?response = "[PList [PStr ''privet'', PNone, PStr ''ru''],
                    PList [PList [?first, ?second], PStr ''en'']]"
  have p: "pronunciations ?response = Inr (PStr ''privet'', PStr ''helo'')"
    by (simp add: pronunciations_def list_index_def)
  have "result (translate (mock_env two_candidates mock_ok) (ArgStr ''privet'')
                  ''auto'' ''en'' False)
          = Inr (PList [PStr ''hello'', PStr ''hi''])
        \<and> (\<forall>pronounce_src pronounce_tgt.
               pronunciations ?response = Inr (pronounce_src, pronounce_tgt) \<longrightarrow>
               result (translate (mock_env two_candidates mock_ok) (ArgStr ''privet'')
                         ''auto'' ''en'' True) =
                 Inr (PList [PList [PStr ''hello'', PStr ''hi''], pronounce_src, pronounce_tgt]))"
    by (rule translate_two_candidates [where marker = "''MkEWBc''" and others = "[]"
          and r = mock_ok and decoded_line = mock_line and response' = ?response
          and branch = "PList [PList [?first, ?second], PStr ''en'']"
          and first = ?first and second = ?second])
      (simp_all add: mock_defs client_defs)
  with p show ?thesis by blast
qed

text \<open>
  Claim C5, as the code has it. With \<open>pronounce\<close> set, the single-sentence and the
  two-candidate shape read the source pronunciation at \<open>response_[0][0]\<close> and the
  target pronunciation at \<open>response_[1][0][0][1]\<close> once the text is built; the bare
  answer reads neither and returns its value with two \<open>None\<close>. The outcome with
  \<open>pronounce\<close> is therefore the outcome without it, followed by exactly what the two
  reads give: a position that holds \<open>None\<close> gives \<open>None\<close> in the result and nothing
  is raised, a position that the envelope does not have ends the call with the
  exception of that read.
\<close>

theorem pronunciation_read_from_envelope:
  assumes "text \<noteq> []" and "length text < 5000"
    and "GOOGLE_TTS_RPC env = marker # others"
    and "\<forall>body. post env body = Responded r"
    and "find (py_in marker) (lines r) = Some decoded_line"
    and "decode_envelope env decoded_line = Inr response'"
    and "list_index response' 1 = Inr branch"
    and "py_index branch 0 = Inr response"
  shows "(py_len response = Inr 1 \<and> and_then (py_index response 0) py_len = Inr k \<and> k \<le> 5 \<longrightarrow>
            result (translate env (ArgStr text) source_lang target_lang True) =
              and_then (result (translate env (ArgStr text) source_lang target_lang False))
                (\<lambda>v. Inr (PList [v, PNone, PNone])))
       \<and> (py_len response = Inr 2
            \<or> (py_len response = Inr 1 \<and> and_then (py_index response 0) py_len = Inr k \<and> 5 < k) \<longrightarrow>
            result (translate env (ArgStr text) source_lang target_lang True) =
              and_then (result (translate env (ArgStr text) source_lang target_lang False))
                (\<lambda>v. and_then (pronunciations response')
                       (\<lambda>(pronounce_src, pronounce_tgt).
                          Inr (PList [v, pronounce_src, pronounce_tgt]))))"
proof -
  let ?plain = "result (translate env (ArgStr text) source_lang target_lang False)"
  let ?spoken = "result (translate env (ArgStr text) source_lang target_lang True)"
  have line: "translate_line env p decoded_line = translate_shape p response'" for p
    using assms(6) by (simp add: translate_line_def)
  have raised: "result (translate env (ArgStr text) source_lang target_lang p) = Inl e"
    if "translate_shape p response' = Inl e" for p e
    using translate_raises [OF assms(1-5), of p e] line that by simp
  have returned: "result (translate env (ArgStr text) source_lang target_lang p) = Inr v"
    if "translate_shape p response' = Inr (Some v)" for p v
    using translate_returns [OF assms(1-5), of p v] line that by simp
  have bare: "?spoken = and_then ?plain (\<lambda>v. Inr (PList [v, PNone, PNone]))"
    if h: "py_len response = Inr 1" "and_then (py_index response 0) py_len = Inr k" "k \<le> 5"
  proof (cases "translate_shape False response'")
    case (Inl e)
    then have "translate_shape True response' = Inl e"
      using translate_shape_bare(1) [OF assms(7,8) h] by simp
    then show ?thesis using raised Inl by simp
  next
    case (Inr res)
    then obtain v where v: "translate_shape False response' = Inr (Some v)"
      using translate_shape_bare(2) [OF assms(7,8) h, of False] by (cases res) simp_all
    then have "translate_shape True response' = Inr (Some (PList [v, PNone, PNone]))"
      using translate_shape_bare(1) [OF assms(7,8) h] by simp
    then show ?thesis using returned v by simp
  qed
  have read: "?spoken = and_then ?plain (\<lambda>v. and_then (pronunciations response')
                       (\<lambda>(pronounce_src, pronounce_tgt).
                          Inr (PList [v, pronounce_src, pronounce_tgt])))"
    if shape: "translate_shape True response' =
           (case translate_shape False response' of
              Inl e \<Rightarrow> Inl e
            | Inr None \<Rightarrow> Inr None
            | Inr (Some v) \<Rightarrow>
                and_then (pronunciations response') (\<lambda>(a, b). Inr (Some (PList [v, a, b]))))"
      and decided: "translate_shape False response' \<noteq> Inr None"
  proof (cases "translate_shape False response'")
    case (Inl e)
    then have "translate_shape True response' = Inl e"
      using shape by simp
    then show ?thesis using raised Inl by simp
  next
    case (Inr res)
    then obtain v where v: "translate_shape False response' = Inr (Some v)"
      using decided by (cases res) simp_all
    show ?thesis
    proof (cases "pronunciations response'")
      case (Inl e)
      then have "translate_shape True response' = Inl e"
        using shape v by simp
      then show ?thesis using raised returned v Inl by simp
    next
      case (Inr ab)
      then obtain a b where ab: "pronunciations response' = Inr (a, b)"
        by (cases ab) simp
      then have "translate_shape True response' = Inr (Some (PList [v, a, b]))"
        using shape v by simp
      then show ?thesis using returned v ab by simp
    qed
  qed
  have two: "?spoken = and_then ?plain (\<lambda>v. and_then (pronunciations response')
                       (\<lambda>(pronounce_src, pronounce_tgt).
                          Inr (PList [v, pronounce_src, pronounce_tgt])))"
    if "py_len response = Inr 2"
    using read translate_shape_two [OF assms(7,8) that] by blast
  have single: "?spoken = and_then ?plain (\<lambda>v. and_then (pronunciations response')
                       (\<lambda>(pronounce_src, pronounce_tgt).
                          Inr (PList [v, pronounce_src, pronounce_tgt])))"
    if "py_len response = Inr 1" "and_then (py_index response 0) py_len = Inr k" "5 < k"
    using read translate_shape_single [OF assms(7,8) that] by blast
  from bare two single show ?thesis by blast
qed

theorem pronunciation_read_from_envelope_witness:
  "result (translate (mock_env single_sentence mock_ok) (ArgStr ''hello'') ''auto'' ''es'' True) =
     Inr (PList [PStr ''Hola mundo '', PNone, PNone])
   \<and> result (translate (mock_env two_candidates mock_ok) (ArgStr ''privet'') ''auto'' ''en'' True) =
     Inr (PList [PList [PStr ''hello'', PStr ''hi''], PStr ''privet'', PStr ''helo''])
   \<and> result (translate (mock_env bare_url mock_ok) (ArgStr ''https://example.com'')
               ''auto'' ''es'' True) =
     Inr (PList [PStr ''https://example.com'', PNone, PNone])"
proof -
  let ?hola = "'' Hola''"
  let ?mundo = "[CHR 0x09] @ ''mundo'' @ [CHR 0x0A]"
  let ?element = "PList [PNone, PNone, PNone, PNone, PNone,
                         PList [PList [PStr ?hola, PStr '' ''], PList [PStr ?mundo]]]"
  let ?single = "[PList [PNone, PNone, PStr ''en''], PList [PList [?element], PStr ''es'']]"
  let ?pair = "PList [PList [PStr ''hello'', PStr ''helo''], PList [PStr ''hi'', PNone]]"
  let ?two = "[PList [PStr ''privet'', PNone, PStr ''ru''], PList [?pair, PStr ''en'']]"
  let ?url = "PList [PList [PStr ''https://example.com'']]"
  let ?bare = "[PList [PNone, PNone, PStr ''en''], PList [?url, PStr ''es'']]"
  have plain:
    "result (translate (mock_env single_sentence mock_ok) (ArgStr ''hello'') ''auto'' ''es'' False)
       = Inr (PStr ''Hola mundo '')"
    "result (translate (mock_env two_candidates mock_ok) (ArgStr ''privet'') ''auto'' ''en'' False)
       = Inr (PList [PStr ''hello'', PStr ''hi''])"
    "result (translate (mock_env bare_url mock_ok) (ArgStr ''https://example.com'')
               ''auto'' ''es'' False) = Inr (PStr ''https://example.com'')"
    by (simp_all add: mock_defs client_defs int_str_def int_max_str_digits_def
        show_int_def show_nat.simps)
  have read: "pronunciations ?single = Inr (PNone, PNone)"
    "pronunciations ?two = Inr (PStr ''privet'', PStr ''helo'')"
    by (simp_all add: pronunciations_def list_index_def)
  have a: "(py_len (PList [?element]) = Inr 2
            \<or> (py_len (PList [?element]) = Inr 1
                \<and> and_then (py_index (PList [?element]) 0) py_len = Inr 6 \<and> (5::nat) < 6))"
    by (simp add: list_index_def)
  have b: "(py_len ?pair = Inr 2
            \<or> (py_len ?pair = Inr 1
                \<and> and_then (py_index ?pair 0) py_len = Inr 6 \<and> (5::nat) < 6))"
    by simp
  have c: "py_len ?url = Inr 1 \<and> and_then (py_index ?url 0) py_len = Inr 1 \<and> (1::nat) \<le> 5"
    by (simp add: list_index_def)
  have "result (translate (mock_env single_sentence mock_ok) (ArgStr ''hello'') ''auto'' ''es'' True)
      = and_then (result (translate (mock_env single_sentence mock_ok) (ArgStr ''hello'')
                    ''auto'' ''es'' False))
          (\<lambda>v. and_then (pronunciations ?single)
                 (\<lambda>(pronounce_src, pronounce_tgt). Inr (PList [v, pronounce_src, pronounce_tgt])))"
    using a by (rule pronunciation_read_from_envelope [where marker = "''MkEWBc''" and others = "[]"
          and r = mock_ok and decoded_line = mock_line and response' = ?single
          and branch = "PList [PList [?element], PStr ''es'']" and k = 6, THEN conjunct2, rule_format,
          rotated -1])
      (simp_all add: mock_defs client_defs)
  moreover have "result (translate (mock_env two_candidates mock_ok) (ArgStr ''privet'')
                    ''auto'' ''en'' True)
      = and_then (result (translate (mock_env two_candidates mock_ok) (ArgStr ''privet'')
                    ''auto'' ''en'' False))
          (\<lambda>v. and_then (pronunciations ?two)
                 (\<lambda>(pronounce_src, pronounce_tgt). Inr (PList [v, pronounce_src, pronounce_tgt])))"
    using b by (rule pronunciation_read_from_envelope [where marker = "''MkEWBc''" and others = "[]"
          and r = mock_ok and decoded_line = mock_line and response' = ?two
          and branch = "PList [?pair, PStr ''en'']" and k = 6, THEN conjunct2, rule_format,
          rotated -1])
      (simp_all add: mock_defs client_defs)
  moreover have "result (translate (mock_env bare_url mock_ok) (ArgStr ''https://example.com'')
                    ''auto'' ''es'' True)
      = and_then (result (translate (mock_env bare_url mock_ok) (ArgStr ''https://example.com'')
                    ''auto'' ''es'' False))
          (\<lambda>v. Inr (PList [v, PNone, PNone]))"
    using c by (rule pronunciation_read_from_envelope [where marker = "''MkEWBc''" and others = "[]"
          and r = mock_ok and decoded_line = mock_line and response' = ?bare
          and branch = "PList [?url, PStr ''es'']" and k = 1, THEN conjunct1, rule_format,
          rotated -1])
      (simp_all add: mock_defs client_defs)
  ultimately show ?thesis
    using plain read by simp
qed

text \<open>
  Claim C5 as stated fails when the backend leaves the position out instead of filling
  it with \<open>None\<close>: for two candidates of one position each, \<open>translate\<close> returns the
  two strings without \<open>pronounce\<close> and raises \<open>IndexError\<close> with it.
\<close>

theorem missing_pronunciation_counterexample:
  "decode_envelope (mock_env short_candidates mock_ok) mock_line =
     Inr [PList [PStr ''privet''],
          PList [PList [PList [PStr ''hello''], PList [PStr ''hi'']], PStr ''en'']]
   \<and> result (translate (mock_env short_candidates mock_ok) (ArgStr ''privet'')
               ''auto'' ''en'' False) = Inr (PList [PStr ''hello'', PStr ''hi''])
   \<and> result (translate (mock_env short_candidates mock_ok) (ArgStr ''privet'')
               ''auto'' ''en'' True) = Inl IndexError"
  by (simp add: mock_defs client_defs int_str_def int_max_str_digits_def
      show_int_def show_nat.simps)

subsection \<open>Detection\<close>

text \<open>
  Claim C8. When the first line with the marker decodes, its string at \<open>[0][2]\<close>
  decodes again, and the payload holds the string \<open>code\<close> at \<open>[0][2]\<close>, then
  \<open>detect\<close> looks the lower-cased code up in \<open>LANGUAGES\<close>: it returns the dict with the
  single entry from the lower-cased code to its display name, and raises \<open>KeyError\<close>
  when the lower-cased code is not a key of the table.
\<close>

theorem detect_lower_cased_lookup:
  assumes "text \<noteq> []" and "length text < 5000"
    and "GOOGLE_TTS_RPC env = marker # others"
    and "\<forall>body. post env body = Responded r"
    and "find (py_in marker) (lines r) = Some decoded_line"
    and "loads env decoded_line = Some outer"
    and "py_index outer 0 = Inr entry"
    and "py_index entry 2 = Inr (PStr inner)"
    and "loads env inner = Some payload"
    and "py_index payload 0 = Inr head"
    and "py_index head 2 = Inr (PStr code)"
  shows "result (detect env (ArgStr text)) =
           (case LANGUAGES env (lower code) of
              None \<Rightarrow> Inl KeyError
            | Some name \<Rightarrow> Inr (PDict [(lower code, PStr name)]))"
proof -
  have "first_rpc env = Inr marker"
    using assms(3) by (simp add: first_rpc_def)
  then have "detect_lines env (lines r) =
      and_then (detect_line env decoded_line) (\<lambda>v. Inr (Some v))"
    using assms(5) by (rule detect_lines_first_marked)
  moreover have "detect_code env decoded_line = Inr (lower code)"
    using assms(6-11) by (simp add: detect_code_def)
  ultimately show ?thesis
    using detect_responded [OF assms(1-4)]
    by (simp add: detect_line_def split: option.splits)
qed

theorem detect_lower_cased_lookup_witness:
  "result (detect (mock_env detected_EN mock_ok) (ArgStr ''hello'')) =
     Inr (PDict [(''en'', PStr ''english'')])
   \<and> result (detect (mock_env (PList [PList [PNone, PNone, PStr ''Tlh'']]) mock_ok)
               (ArgStr ''nuqneH'')) = Inl KeyError"
proof -
  let ?outer = "PList [PList [PStr ''wrb.fr'', PStr ''MkEWBc'', PStr ''payload'']]"
  let ?entry = "PList [PStr ''wrb.fr'', PStr ''MkEWBc'', PStr ''payload'']"
  let ?unknown = "PList [PList [PNone, PNone, PStr ''Tlh'']]"
  have "result (detect (mock_env detected_EN mock_ok) (ArgStr ''hello'')) =
           (case LANGUAGES (mock_env detected_EN mock_ok) (lower ''EN'') of
              None \<Rightarrow> Inl KeyError
            | Some name \<Rightarrow> Inr (PDict [(lower ''EN'', PStr name)]))"
    by (rule detect_lower_cased_lookup [where marker = "''MkEWBc''" and others = "[]"
          and r = mock_ok and decoded_line = mock_line and outer = ?outer and entry = ?entry
          and inner = "''payload''" and payload = detected_EN
          and head = "PList [PNone, PNone, PStr ''EN'']"])
      (simp_all add: mock_defs client_defs)
  moreover have "result (detect (mock_env ?unknown mock_ok) (ArgStr ''nuqneH'')) =
           (case LANGUAGES (mock_env ?unknown mock_ok) (lower ''Tlh'') of
              None \<Rightarrow> Inl KeyError
            | Some name \<Rightarrow> Inr (PDict [(lower ''Tlh'', PStr name)]))"
    by (rule detect_lower_cased_lookup [where marker = "''MkEWBc''" and others = "[]"
          and r = mock_ok and decoded_line = mock_line and outer = ?outer and entry = ?entry
          and inner = "''payload''" and payload = ?unknown
          and head = "PList [PNone, PNone, PStr ''Tlh'']"])
      (simp_all add: mock_defs client_defs)
  moreover have "lower ''EN'' = ''en''" and "lower ''Tlh'' = ''tlh''"
    by code_simp+
  ultimately show ?thesis
    by (simp add: mock_env_def mock_languages_def)
qed

subsection \<open>Which line is read\<close>

text \<open>
  Claim C2, as the code has it. Both loops look for \<open>GOOGLE_TTS_RPC[0]\<close>. Let that be
  the id the request carries, as it is whenever the candidate list has one entry.
  \<open>detect\<close> ends with what the first line containing the marker gives. \<open>translate\<close>
  takes the lines containing the marker in order and ends with the first of them that
  returns or raises; a line with the marker whose translation array has a length other
  than 1 or 2 is passed over. When no line contains the marker, or (for \<open>translate\<close>)
  none of those that do is of a known shape, nothing is read: the call returns \<open>None\<close>,
  or raises the classified error when the status is one \<open>raise_for_status\<close> rejects.
\<close>

theorem lines_scanned_for_marker:
  assumes "text \<noteq> []" and "length text < 5000"
    and "GOOGLE_TTS_RPC env = marker # others"
    and "random_choice env (GOOGLE_TTS_RPC env) = Inr marker"
    and "\<forall>body. post env body = Responded r"
  shows "result (detect env (ArgStr text)) =
           (case find (py_in marker) (lines r) of
              None \<Rightarrow>
                if raises_for_status r
                then Inl (GoogleTranslateError_init None (Some GoogleTranslate_self) (Some r))
                else Inr PNone
            | Some l \<Rightarrow> detect_line env l)
     \<and> result (translate env (ArgStr text) source_lang target_lang pronounce) =
           (case find (\<lambda>l. translate_line env pronounce l \<noteq> Inr None)
                   (filter (py_in marker) (lines r)) of
              None \<Rightarrow>
                if raises_for_status r
                then Inl (GoogleTranslateError_init None (Some GoogleTranslate_self) (Some r))
                else Inr PNone
            | Some l \<Rightarrow>
                (case translate_line env pronounce l of
                   Inl e \<Rightarrow> Inl e
                 | Inr None \<Rightarrow>
                     if raises_for_status r
                     then Inl (GoogleTranslateError_init None (Some GoogleTranslate_self) (Some r))
                     else Inr PNone
                 | Inr (Some v) \<Rightarrow> Inr v))
     \<and> (find (py_in marker) (lines r) = None \<longrightarrow>
          result (translate env (ArgStr text) source_lang target_lang pronounce) =
            (if raises_for_status r
             then Inl (GoogleTranslateError_init None (Some GoogleTranslate_self) (Some r))
             else Inr PNone))"
proof -
  let ?no_result = "if raises_for_status r
             then Inl (GoogleTranslateError_init None (Some GoogleTranslate_self) (Some r))
             else Inr PNone"
  let ?decisive = "find (\<lambda>l. translate_line env pronounce l \<noteq> Inr None)
                   (filter (py_in marker) (lines r))"
  have m: "first_rpc env = Inr marker"
    using assms(3) by (simp add: first_rpc_def)
  have d: "result (detect env (ArgStr text)) =
           (case find (py_in marker) (lines r) of None \<Rightarrow> ?no_result | Some l \<Rightarrow> detect_line env l)"
  proof (cases "find (py_in marker) (lines r)")
    case None
    then show ?thesis
      using detect_responded [OF assms(1-3,5)] detect_lines_scan [OF m, of "lines r"] by simp
  next
    case (Some l)
    then show ?thesis
      using detect_responded [OF assms(1-3,5)] detect_lines_scan [OF m, of "lines r"]
      by (cases "detect_line env l") simp_all
  qed
  have t: "result (translate env (ArgStr text) source_lang target_lang pronounce) =
           (case ?decisive of
              None \<Rightarrow> ?no_result
            | Some l \<Rightarrow>
                (case translate_line env pronounce l of
                   Inl e \<Rightarrow> Inl e
                 | Inr None \<Rightarrow>
                     if raises_for_status r
                     then Inl (GoogleTranslateError_init None (Some GoogleTranslate_self) (Some r))
                     else Inr PNone
                 | Inr (Some v) \<Rightarrow> Inr v))"
  proof (cases ?decisive)
    case None
    then show ?thesis
      using translate_responded [OF assms(1-3,5), of source_lang target_lang pronounce]
        translate_lines_scan [OF m, of pronounce "lines r"] by simp
  next
    case (Some l)
    then have "translate_line env pronounce l \<noteq> Inr None"
      by (auto simp: find_Some_iff)
    then show ?thesis
      using translate_responded [OF assms(1-3,5), of source_lang target_lang pronounce]
        translate_lines_scan [OF m, of pronounce "lines r"] Some
      by (cases "translate_line env pronounce l"; simp; cases "projr (translate_line env pronounce l)"; simp)
  qed
  have n: "result (translate env (ArgStr text) source_lang target_lang pronounce) = ?no_result"
    if "find (py_in marker) (lines r) = None"
    using translate_responded [OF assms(1-3,5), of source_lang target_lang pronounce]
      translate_lines_no_marker [OF m that, of pronounce] by simp
  from d t n show ?thesis by blast
qed

theorem lines_scanned_for_marker_witness:
  "random_choice (mock_env single_sentence mock_two_marked)
     (GOOGLE_TTS_RPC (mock_env single_sentence mock_two_marked)) = Inr ''MkEWBc''
   \<and> find (py_in ''MkEWBc'') (lines mock_two_marked) = Some mock_other_line
   \<and> result (detect (mock_env single_sentence mock_two_marked) (ArgStr ''hello'')) =
       Inr (PDict [(''es'', PStr ''spanish'')])
   \<and> result (translate (mock_env single_sentence mock_two_marked) (ArgStr ''hello'')
               ''auto'' ''es'' False) = Inr (PStr ''Hola mundo '')
   \<and> result (translate (mock_env PNone mock_ok) (ArgStr ''hello'') ''auto'' ''es'' False) =
       Inl TypeError
   \<and> find (py_in ''MkEWBc'') (lines (mock_response 200 ''OK'' ['')]}''])) = None
   \<and> result (translate (mock_env single_sentence (mock_response 200 ''OK'' ['')]}'']))
               (ArgStr ''hello'') ''auto'' ''es'' False) = Inr PNone
   \<and> result (detect (mock_env single_sentence (mock_response 200 ''OK'' ['')]}'']))
               (ArgStr ''hello'')) = Inr PNone"
proof -
  let ?env = "mock_env single_sentence mock_two_marked"
  let ?broken = "mock_env PNone mock_ok"
  let ?r = "mock_response 200 ''OK'' ['')]}'']"
  let ?silent = "mock_env single_sentence ?r"
  have marked: "filter (py_in ''MkEWBc'') (lines mock_two_marked) = [mock_other_line, mock_line]"
    "filter (py_in ''MkEWBc'') (lines mock_ok) = [mock_line]"
    "filter (py_in ''MkEWBc'') (lines ?r) = []"
    by (simp_all add: mock_defs)
  have found: "find (py_in ''MkEWBc'') (lines mock_two_marked) = Some mock_other_line"
    "find (py_in ''MkEWBc'') (lines mock_ok) = Some mock_line"
    "find (py_in ''MkEWBc'') (lines ?r) = None"
    by (simp_all add: mock_defs)
  have line: "translate_line ?env False mock_other_line = Inr None"
    "translate_line ?env False mock_line = Inr (Some (PStr ''Hola mundo ''))"
    "translate_line ?broken False mock_line = Inl TypeError"
    by (simp_all add: mock_defs client_defs)
  have dline: "detect_line ?env mock_other_line = Inr (PDict [(''es'', PStr ''spanish'')])"
    by (simp add: mock_defs client_defs)
  have ok: "\<not> raises_for_status ?r"
    by (simp add: mock_defs raises_for_status_def)
  have a: "''hello'' \<noteq> []" "length ''hello'' < 5000" by simp_all
  have b: "GOOGLE_TTS_RPC ?env = ''MkEWBc'' # []" "GOOGLE_TTS_RPC ?silent = ''MkEWBc'' # []"
    "GOOGLE_TTS_RPC ?broken = ''MkEWBc'' # []"
    by (simp_all add: mock_env_def)
  have c: "random_choice ?env (GOOGLE_TTS_RPC ?env) = Inr ''MkEWBc''"
    "random_choice ?silent (GOOGLE_TTS_RPC ?silent) = Inr ''MkEWBc''"
    "random_choice ?broken (GOOGLE_TTS_RPC ?broken) = Inr ''MkEWBc''"
    by (simp_all add: mock_env_def random_choice_def)
  have d: "\<forall>body. post ?env body = Responded mock_two_marked"
    "\<forall>body. post ?silent body = Responded ?r"
    "\<forall>body. post ?broken body = Responded mock_ok"
    by (simp_all add: mock_env_def)
  show ?thesis
    using lines_scanned_for_marker [OF a b(1) c(1) d(1), of "''auto''" "''es''" False]
      lines_scanned_for_marker [OF a b(2) c(2) d(2), of "''auto''" "''es''" False]
      lines_scanned_for_marker [OF a b(3) c(3) d(3), of "''auto''" "''es''" False]
      marked found line dline ok c(1)
    by simp
qed

text \<open>
  Claim C2 as stated fails for \<open>translate\<close> on a body with two lines that contain the
  marker, the first of a shape without a branch: the first line with the marker returns
  nothing, and \<open>translate\<close> returns what the second one holds.
\<close>

theorem later_marked_line_counterexample:
  "random_choice (mock_env single_sentence mock_two_marked)
     (GOOGLE_TTS_RPC (mock_env single_sentence mock_two_marked)) = Inr ''MkEWBc''
   \<and> find (py_in ''MkEWBc'') (lines mock_two_marked) = Some mock_other_line
   \<and> translate_line (mock_env single_sentence mock_two_marked) False mock_other_line = Inr None
   \<and> translate_line (mock_env single_sentence mock_two_marked) False mock_line =
       Inr (Some (PStr ''Hola mundo ''))
   \<and> result (translate (mock_env single_sentence mock_two_marked) (ArgStr ''hello'')
               ''auto'' ''es'' False) = Inr (PStr ''Hola mundo '')"
  by (simp add: mock_defs client_defs int_str_def int_max_str_digits_def
      show_int_def show_nat.simps)

subsection \<open>The classified error\<close>

text \<open>
  Claim C6. A \<open>GoogleTranslateError\<close> built from a client and a response has the message
  \<open>"<status> (<reason>) from TTS API. Probable cause: <cause>"\<close>, where the cause is
  \<open>Bad token or upstream API changes\<close> for status 403, the unsupported-language
  sentence for status 200 when the client's \<open>lang_check\<close> is false, the
  upstream-error sentence for a status of 500 or more, and \<open>Unknown\<close> otherwise. The
  attributes \<open>lang_check\<close> and \<open>lang\<close> are read at status 200 only: for every other
  status the error is built for any client, a \<open>GoogleTranslate\<close> instance included,
  and at status 200 it is built for a client that has the attributes read there; for a
  client without them no error is built at status 200, the constructor ends with
  \<open>AttributeError\<close>. In \<open>translate\<close> the status is never 200 at that point: when no line
  has the marker and \<open>raise_for_status\<close> rejects the status, \<open>translate\<close> raises the
  error with the cause chosen by the status.
\<close>

theorem infer_msg_by_status:
  "(status_code rsp \<noteq> 200 \<or> lang_check tts = Some True
      \<or> (lang_check tts = Some False \<and> lang tts = Some l) \<longrightarrow>
      GoogleTranslateError_init None (Some tts) (Some rsp) =
        GoogleTranslateError (Some (premise rsp @ ''. Probable cause: '' @
          (if status_code rsp = 403 then ''Bad token or upstream API changes''
           else if status_code rsp = 200 \<and> lang_check tts = Some False
             then ''No audio stream in response. Unsupported language '' @
                  [CHR 0x27] @ l @ [CHR 0x27]
           else if status_code rsp \<ge> 500 then ''Upstream API error. Try again later.''
           else ''Unknown''))))
   \<and> (status_code rsp = 200
        \<and> (lang_check tts = None \<or> (lang_check tts = Some False \<and> lang tts = None)) \<longrightarrow>
      GoogleTranslateError_init None (Some tts) (Some rsp) = AttributeError)
   \<and> (text \<noteq> [] \<and> length text < 5000 \<and> GOOGLE_TTS_RPC env = marker # others
        \<and> (\<forall>body. post env body = Responded rsp)
        \<and> find (py_in marker) (lines rsp) = None \<and> raises_for_status rsp \<longrightarrow>
      result (translate env (ArgStr text) source_lang target_lang pronounce) =
        Inl (GoogleTranslateError (Some (premise rsp @ ''. Probable cause: '' @
          (if status_code rsp = 403 then ''Bad token or upstream API changes''
           else if status_code rsp \<ge> 500 then ''Upstream API error. Try again later.''
           else ''Unknown'')))))"
proof -
  have init: "GoogleTranslateError_init None (Some tts) (Some rsp) =
        GoogleTranslateError (Some (premise rsp @ ''. Probable cause: '' @
          (if status_code rsp = 403 then ''Bad token or upstream API changes''
           else if status_code rsp = 200 \<and> lang_check tts = Some False
             then ''No audio stream in response. Unsupported language '' @
                  [CHR 0x27] @ l @ [CHR 0x27]
           else if status_code rsp \<ge> 500 then ''Upstream API error. Try again later.''
           else ''Unknown'')))"
    if "status_code rsp \<noteq> 200 \<or> lang_check tts = Some True
          \<or> (lang_check tts = Some False \<and> lang tts = Some l)"
    for tts l
    using that by (auto simp: GoogleTranslateError_init_def infer_msg_def Let_def)
  have missing: "GoogleTranslateError_init None (Some tts) (Some rsp) = AttributeError"
    if "status_code rsp = 200
          \<and> (lang_check tts = None \<or> (lang_check tts = Some False \<and> lang tts = None))"
    using that by (auto simp: GoogleTranslateError_init_def infer_msg_def Let_def)
  have "result (translate env (ArgStr text) source_lang target_lang pronounce) =
        Inl (GoogleTranslateError (Some (premise rsp @ ''. Probable cause: '' @
          (if status_code rsp = 403 then ''Bad token or upstream API changes''
           else if status_code rsp \<ge> 500 then ''Upstream API error. Try again later.''
           else ''Unknown''))))"
    if a: "text \<noteq> []" "length text < 5000" "GOOGLE_TTS_RPC env = marker # others"
       "\<forall>body. post env body = Responded rsp"
      and none: "find (py_in marker) (lines rsp) = None" and bad: "raises_for_status rsp"
  proof -
    have "first_rpc env = Inr marker"
      using a(3) by (simp add: first_rpc_def)
    then have "translate_lines env pronounce (lines rsp) = Inr None"
      using none by (rule translate_lines_no_marker)
    moreover have "status_code rsp \<noteq> 200"
      using bad by (auto simp: raises_for_status_def)
    ultimately show ?thesis
      using translate_responded [OF a, of source_lang target_lang pronounce] bad
        init [of GoogleTranslate_self "[]"] by simp
  qed
  with init [of tts l] missing show ?thesis by blast
qed

theorem infer_msg_by_status_witness:
  "GoogleTranslateError_init None (Some unchecked_client) (Some (mock_response 200 ''OK'' [])) =
     GoogleTranslateError (Some
       (''200 (OK) from TTS API. Probable cause: No audio stream in response. Unsupported language ''
        @ [CHR 0x27] @ ''xx'' @ [CHR 0x27]))
   \<and> GoogleTranslateError_init None (Some GoogleTranslate_self)
        (Some (mock_response 503 ''Service Unavailable'' [])) =
     GoogleTranslateError (Some
       ''503 (Service Unavailable) from TTS API. Probable cause: Upstream API error. Try again later.'')
   \<and> GoogleTranslateError_init None (Some GoogleTranslate_self)
        (Some (mock_response 404 ''Not Found'' [])) =
     GoogleTranslateError (Some ''404 (Not Found) from TTS API. Probable cause: Unknown'')
   \<and> GoogleTranslateError_init None (Some GoogleTranslate_self)
        (Some (mock_response 200 ''OK'' [])) = AttributeError
   \<and> result (translate (mock_env single_sentence (mock_response 403 ''Forbidden'' ['')]}'']))
               (ArgStr ''hello'') ''auto'' ''es'' False) =
     Inl (GoogleTranslateError (Some
       ''403 (Forbidden) from TTS API. Probable cause: Bad token or upstream API changes''))"
proof -
  let ?forbidden = "mock_response 403 ''Forbidden'' ['')]}'']"
  have p: "premise (mock_response 200 ''OK'' []) = ''200 (OK) from TTS API''"
    "premise (mock_response 503 ''Service Unavailable'' []) =
       ''503 (Service Unavailable) from TTS API''"
    "premise (mock_response 404 ''Not Found'' []) = ''404 (Not Found) from TTS API''"
    "premise ?forbidden = ''403 (Forbidden) from TTS API''"
    by code_simp+
  show ?thesis
    using infer_msg_by_status [where rsp = "mock_response 200 ''OK'' []"
        and tts = unchecked_client and l = "''xx''"]
      infer_msg_by_status [where rsp = "mock_response 503 ''Service Unavailable'' []"
        and tts = GoogleTranslate_self]
      infer_msg_by_status [where rsp = "mock_response 404 ''Not Found'' []"
        and tts = GoogleTranslate_self]
      infer_msg_by_status [where rsp = "mock_response 200 ''OK'' []"
        and tts = GoogleTranslate_self]
      infer_msg_by_status [of ?forbidden GoogleTranslate_self _ "''hello''"
        "mock_env single_sentence ?forbidden" "''MkEWBc''" "[]" "''auto''" "''es''" False]
    by (simp add: p) (simp add: mock_defs raises_for_status_def GoogleTranslate_self_def)
qed

subsection \<open>Arguments that are not strings\<close>

text \<open>
  Claim C10, as the code has it. \<open>translate\<close> applies \<open>str()\<close> before its guards: an
  argument whose \<open>str()\<close> returns is handled as that string, an integer of at most
  4300 digits as its decimal form; an argument whose \<open>str()\<close> raises, an integer of
  more digits, ends the call with that \<open>ValueError\<close> before any guard. \<open>detect\<close>
  applies \<open>len()\<close> to the argument as it comes. An argument without a length (\<open>None\<close>,
  a boolean, an integer) makes it raise \<open>TypeError\<close> before any guard, warning or
  request. A list has a length and goes through the guards: \<open>detect\<close> returns \<open>None\<close>
  for a list of 5000 or more elements and for the empty list, and for any other list
  raises \<open>AttributeError\<close> while the request is built, before anything is posted.
\<close>

theorem translate_coerces_detect_does_not:
  "translate env a source_lang target_lang pronounce =
     (case py_str a of
        Inl e \<Rightarrow> \<lparr>result = Inl e, posted = [], logged = []\<rparr>
      | Inr text \<Rightarrow> translate env (ArgStr text) source_lang target_lang pronounce)
   \<and> py_str (ArgInt i) =
       (if 10 ^ int_max_str_digits \<le> \<bar>i\<bar> then Inl ValueError else Inr (show_int i))
   \<and> detect env ArgNone = \<lparr>result = Inl TypeError, posted = [], logged = []\<rparr>
   \<and> detect env (ArgBool b) = \<lparr>result = Inl TypeError, posted = [], logged = []\<rparr>
   \<and> detect env (ArgInt i) = \<lparr>result = Inl TypeError, posted = [], logged = []\<rparr>
   \<and> detect env (ArgList xs) =
       (if 5000 \<le> length xs then \<lparr>result = Inr PNone, posted = [], logged = [DetectTooLong]\<rparr>
        else if xs = [] then \<lparr>result = Inr PNone, posted = [], logged = [NothingToDetect]\<rparr>
        else \<lparr>result = Inl AttributeError, posted = [], logged = []\<rparr>)"
proof -
  have "translate env a source_lang target_lang pronounce =
     (case py_str a of
        Inl e \<Rightarrow> \<lparr>result = Inl e, posted = [], logged = []\<rparr>
      | Inr text \<Rightarrow> translate env (ArgStr text) source_lang target_lang pronounce)"
    by (cases "py_str a") (simp_all add: translate_def)
  moreover have "py_str (ArgInt i) =
       (if 10 ^ int_max_str_digits \<le> \<bar>i\<bar> then Inl ValueError else Inr (show_int i))"
    using int_str_limit [of i] by (simp only: py_str.simps py_repr.simps)
  moreover have "detect env ArgNone = \<lparr>result = Inl TypeError, posted = [], logged = []\<rparr>"
    "detect env (ArgBool b) = \<lparr>result = Inl TypeError, posted = [], logged = []\<rparr>"
    "detect env (ArgInt i) = \<lparr>result = Inl TypeError, posted = [], logged = []\<rparr>"
    by (simp_all add: detect_def)
  moreover have "detect env (ArgList xs) =
       (if 5000 \<le> length xs then \<lparr>result = Inr PNone, posted = [], logged = [DetectTooLong]\<rparr>
        else if xs = [] then \<lparr>result = Inr PNone, posted = [], logged = [NothingToDetect]\<rparr>
        else \<lparr>result = Inl AttributeError, posted = [], logged = []\<rparr>)"
    by (simp add: detect_def f_req_data_def)
  ultimately show ?thesis by (simp only: simp_thms)
qed

theorem translate_coerces_detect_does_not_witness:
  "py_str (ArgInt 42) = Inr ''42''
   \<and> result (translate (mock_env single_sentence mock_ok) (ArgInt 42) ''auto'' ''es'' False) =
     Inr (PStr ''Hola mundo '')
   \<and> py_str (ArgInt (10 ^ int_max_str_digits)) = Inl ValueError
   \<and> translate (mock_env single_sentence mock_ok) (ArgInt (10 ^ int_max_str_digits))
       ''auto'' ''es'' False = \<lparr>result = Inl ValueError, posted = [], logged = []\<rparr>
   \<and> detect (mock_env single_sentence mock_ok) (ArgInt 42) =
     \<lparr>result = Inl TypeError, posted = [], logged = []\<rparr>
   \<and> detect (mock_env single_sentence mock_ok) (ArgList [ArgStr ''hello'']) =
     \<lparr>result = Inl AttributeError, posted = [], logged = []\<rparr>"
proof -
  let ?env = "mock_env single_sentence mock_ok"
  have small: "\<not> 10 ^ int_max_str_digits \<le> \<bar>42 :: int\<bar>"
  proof -
    have "(10::int) ^ 2 \<le> 10 ^ int_max_str_digits"
      by (rule power_increasing) (simp_all add: int_max_str_digits_def)
    then show ?thesis by simp
  qed
  have large: "(10::int) ^ int_max_str_digits \<le> \<bar>10 ^ int_max_str_digits\<bar>"
    by simp
  have digits: "show_int 42 = ''42''"
    by code_simp
  have plain: "result (translate ?env (ArgStr ''42'') ''auto'' ''es'' False) =
     Inr (PStr ''Hola mundo '')"
    by (simp add: mock_defs client_defs show_int_def show_nat.simps)
  have one: "length [ArgStr ''hello''] < 5000" "[ArgStr ''hello''] \<noteq> []"
    by simp_all
  show ?thesis
    using translate_coerces_detect_does_not [of ?env "ArgInt 42" "''auto''" "''es''" False 42
        True "[ArgStr ''hello'']"]
      translate_coerces_detect_does_not [of ?env "ArgInt (10 ^ int_max_str_digits)" "''auto''"
        "''es''" False "10 ^ int_max_str_digits"]
      small large digits plain one
    by (simp only: simp_thms if_True if_False sum.case not_less linorder_not_le
        list.size) auto
qed

text \<open>
  Claim C10 as stated fails at the empty list: \<open>translate\<close> takes it (as the text
  \<open>[]\<close>) and \<open>detect\<close> does not fail on it, it returns \<open>None\<close> from the emptiness
  guard.
\<close>

theorem sized_argument_counterexample:
  "result (translate (mock_env single_sentence mock_ok) (ArgList []) ''auto'' ''es'' False) =
     Inr (PStr ''Hola mundo '')
   \<and> detect (mock_env single_sentence mock_ok) (ArgList []) =
     \<lparr>result = Inr PNone, posted = [], logged = [NothingToDetect]\<rparr>"
  by (simp add: mock_defs client_defs show_int_def show_nat.simps)

end
